theory Spec2Isabelle
  imports Main "HOL-Library.Signed_Division"
begin

section \<open>Outcomes that are not a normal return\<close>

text \<open>
  The C code leaves a function abnormally in several ways. Each is a value here.
  \<^item> \<open>Die msg\<close>: \<^verbatim>\<open>die(fmt, ...)\<close>, which prints \<open>msg\<close> to standard error and exits
    with a non-zero status;
  \<^item> \<open>Exit0 out\<close>: \<^verbatim>\<open>exit(0)\<close> after printing \<open>out\<close> to standard output;
  \<^item> \<open>NullDeref\<close>: a string function of libc applied to a NULL pointer;
  \<^item> \<open>BufferOverflow\<close>: a copy of more bytes than the destination was allocated;
  \<^item> \<open>IndeterminateRead\<close>: a read of a byte that was allocated and never written;
  \<^item> \<open>OutOfBounds\<close>: a read behind the terminator of a string;
  \<^item> \<open>DivByZero\<close>: an integer division by zero;
  \<^item> \<open>IntOverflow\<close>: an \<^verbatim>\<open>int\<close> multiplication whose result does not fit 32 bits.
\<close>

datatype failure =
    Die string
  | Exit0 string
  | NullDeref
  | BufferOverflow
  | IndeterminateRead
  | OutOfBounds
  | DivByZero
  | IntOverflow

section \<open>dir\_common.c: the current path, the last error, the fatal error\<close>

text \<open>
  The globals of \<^verbatim>\<open>dir_common.c\<close> (lines 33 to 38). A \<^verbatim>\<open>char *\<close> that may be NULL
  is an option. \<open>dir_curpath\<close> and \<open>lasterr\<close> hold the C string of their buffer (the bytes
  before the terminator); \<open>curpathl\<close> and \<open>lasterrl\<close> are the allocated sizes.
  \<open>dir_fatalerr\<close> holds the whole block that \<^verbatim>\<open>malloc(1024)\<close> returned, byte by byte,
  terminator included, since the code writes the terminator itself.
\<close>

record tracker =
  dir_curpath :: "string option"
  curpathl :: int
  lasterr :: "string option"
  lasterrl :: int
  dir_fatalerr :: "char list option"

text \<open>Objects of static storage start as NULL and 0.\<close>

definition tracker_init :: tracker where
  "tracker_init =
     \<lparr>dir_curpath = None, curpathl = 0, lasterr = None, lasterrl = 0, dir_fatalerr = None\<rparr>"

definition NUL :: char where
  "NUL = CHR 0x00"

text \<open>The C string a block of bytes holds: the bytes before the first terminator.\<close>

definition c_str :: "char list \<Rightarrow> string" where
  "c_str b = takeWhile (\<lambda>c. c \<noteq> NUL) b"

text \<open>
  A \<^verbatim>\<open>size_t\<close> stored in an \<^verbatim>\<open>int\<close> of 32 bits: the value modulo \<open>2^32\<close>, read as two's
  complement. This is what happens to \<^verbatim>\<open>strlen(path)+1\<close> when it is passed to
  \<^verbatim>\<open>curpath_resize(int s)\<close> or assigned to \<^verbatim>\<open>int req\<close>.
\<close>

definition int32 :: "int \<Rightarrow> int" where
  "int32 n = (n + 2 ^ 31) mod 2 ^ 32 - 2 ^ 31"

text \<open>
  \<^verbatim>\<open>curpath_resize\<close> (lines 41 to 46), applied to the \<^verbatim>\<open>int\<close> it receives: grow-only,
  at least 128, doubling. The product \<^verbatim>\<open>curpathl*2\<close> is computed in \<^verbatim>\<open>int\<close>. The
  \<^verbatim>\<open>realloc\<close> keeps the string of the buffer.
\<close>

definition curpath_resize :: "int \<Rightarrow> tracker \<Rightarrow> failure + tracker" where
  "curpath_resize s tr =
     (if curpathl tr < s
      then (if s < 128 then Inr (tr\<lparr>curpathl := 128\<rparr>)
            else if curpathl tr * 2 < - (2 ^ 31) \<or> 2 ^ 31 \<le> curpathl tr * 2
              then Inl IntOverflow
            else if s < curpathl tr * 2 then Inr (tr\<lparr>curpathl := curpathl tr * 2\<rparr>)
            else Inr (tr\<lparr>curpathl := s\<rparr>))
      else Inr tr)"

text \<open>
  \<^verbatim>\<open>dir_curpath_set\<close> (lines 49 to 52): resize to \<open>strlen(path)+1\<close> as an \<^verbatim>\<open>int\<close>, then
  \<^verbatim>\<open>strcpy\<close>. The copy needs a buffer (there is none when the pointer is NULL and the
  resize did not allocate) and writes \<open>strlen(path)+1\<close> bytes, whatever the size of the
  buffer: a length that does not fit the \<^verbatim>\<open>int\<close> leaves the buffer too small.
\<close>

definition dir_curpath_set :: "string \<Rightarrow> tracker \<Rightarrow> failure + tracker" where
  "dir_curpath_set path tr =
     (let s = int32 (int (length path) + 1) in
      case curpath_resize s tr of
        Inl e \<Rightarrow> Inl e
      | Inr tr1 \<Rightarrow>
          if dir_curpath tr = None \<and> \<not> curpathl tr < s then Inl NullDeref
          else if curpathl tr1 < int (length path) + 1 then Inl BufferOverflow
          else Inr (tr1\<lparr>dir_curpath := Some path\<rparr>))"

text \<open>
  \<^verbatim>\<open>dir_curpath_enter\<close> (lines 55 to 60). \<^verbatim>\<open>strlen(dir_curpath)\<close> needs a buffer.
  The test \<^verbatim>\<open>dir_curpath[1]\<close> reads the second byte of the buffer: behind the
  terminator when the string is empty (a stale or never written byte, which the string
  does not determine), the terminator itself when the string has one character, a
  character of the path otherwise. Only in the last case is a slash appended before
  the name. The two \<^verbatim>\<open>strcat\<close> write up to the terminator of the new string, whatever
  the size of the buffer.
\<close>

definition dir_curpath_enter :: "string \<Rightarrow> tracker \<Rightarrow> failure + tracker" where
  "dir_curpath_enter name tr =
     (case dir_curpath tr of
        None \<Rightarrow> Inl NullDeref
      | Some cur \<Rightarrow>
          (case curpath_resize (int32 (int (length cur) + int (length name) + 2)) tr of
             Inl e \<Rightarrow> Inl e
           | Inr tr1 \<Rightarrow>
               (case cur of
                  [] \<Rightarrow> Inl IndeterminateRead
                | [c] \<Rightarrow>
                    if curpathl tr1 < int (length (cur @ name)) + 1 then Inl BufferOverflow
                    else Inr (tr1\<lparr>dir_curpath := Some (cur @ name)\<rparr>)
                | c # d # rest \<Rightarrow>
                    if curpathl tr1 < int (length ((cur @ ''/'') @ name)) + 1
                    then Inl BufferOverflow
                    else Inr (tr1\<lparr>dir_curpath := Some ((cur @ ''/'') @ name)\<rparr>))))"

text \<open>\<^verbatim>\<open>strrchr(s, c)\<close> as the index of the last \<open>c\<close> in \<open>s\<close>; \<open>None\<close> is NULL.\<close>

fun strrchr :: "string \<Rightarrow> char \<Rightarrow> nat option" where
  "strrchr [] c = None"
| "strrchr (x # xs) c =
     (case strrchr xs c of
        Some i \<Rightarrow> Some (Suc i)
      | None \<Rightarrow> if x = c then Some 0 else None)"

text \<open>
  \<^verbatim>\<open>dir_curpath_leave\<close> (lines 64 to 72). With no slash the buffer becomes \<open>"/"\<close>. With
  the last slash behind the first byte, the string is cut at that slash. With the last
  slash at the first byte, the terminator is written at index 1, which leaves the
  first byte alone.
\<close>

definition dir_curpath_leave :: "tracker \<Rightarrow> failure + tracker" where
  "dir_curpath_leave tr =
     (case dir_curpath tr of
        None \<Rightarrow> Inl NullDeref
      | Some cur \<Rightarrow>
          (case strrchr cur CHR ''/'' of
             None \<Rightarrow> Inr (tr\<lparr>dir_curpath := Some ''/''\<rparr>)
           | Some i \<Rightarrow>
               if i \<noteq> 0 then Inr (tr\<lparr>dir_curpath := Some (take i cur)\<rparr>)
               else Inr (tr\<lparr>dir_curpath := Some (take 1 cur)\<rparr>)))"

text \<open>
  \<^verbatim>\<open>dir_setlasterr\<close> (lines 75 to 88). A NULL argument frees the buffer. Otherwise
  the buffer is grown to \<open>req\<close> bytes (\<open>strlen(path)+1\<close> as an \<^verbatim>\<open>int\<close>) when it is smaller,
  and then line 87
  copies \<^verbatim>\<open>dir_curpath\<close> (not \<^verbatim>\<open>path\<close>) into it: \<^verbatim>\<open>strcpy(lasterr, dir_curpath)\<close>.
  The copy writes \<open>strlen(dir_curpath)+1\<close> bytes, whatever the size of the buffer.
\<close>

definition dir_setlasterr :: "string option \<Rightarrow> tracker \<Rightarrow> failure + tracker" where
  "dir_setlasterr path tr =
     (case path of
        None \<Rightarrow> Inr (tr\<lparr>lasterr := None, lasterrl := 0\<rparr>)
      | Some p \<Rightarrow>
          let req = int32 (int (length p) + 1);
              grown = (lasterrl tr < req);
              cap = (if grown then req else lasterrl tr)
          in if \<not> grown \<and> lasterr tr = None then Inl NullDeref
             else (case dir_curpath tr of
                     None \<Rightarrow> Inl NullDeref
                   | Some cur \<Rightarrow>
                       if cap < int (length cur) + 1 then Inl BufferOverflow
                       else Inr (tr\<lparr>lasterr := Some cur, lasterrl := cap\<rparr>)))"

text \<open>
  \<^verbatim>\<open>malloc(n)\<close>: a block of \<open>n\<close> bytes of unknown content; \<open>junk\<close> gives the byte found
  at each offset. The allocation succeeds, as the code takes for granted.
\<close>

definition malloc :: "nat \<Rightarrow> (nat \<Rightarrow> char) \<Rightarrow> char list" where
  "malloc n junk = map junk [0..<n]"

text \<open>
  \<^verbatim>\<open>vsnprintf(buf, sz, fmt, va)\<close> of libc, given the full expansion \<open>out\<close> of the
  format: it writes at most \<open>sz - 1\<close> characters of \<open>out\<close> at the start of \<open>buf\<close>, then
  a terminator, and nothing when the size \<open>sz\<close> is 0.
\<close>

definition vsnprintf :: "char list \<Rightarrow> nat \<Rightarrow> string \<Rightarrow> char list" where
  "vsnprintf buf sz out =
     (if sz = 0 then buf
      else let n = min (length out) (sz - 1)
           in take n out @ [NUL] @ drop (Suc n) buf)"

text \<open>
  \<^verbatim>\<open>dir_seterr\<close> (lines 91 to 103). The old message is freed and the pointer reset
  first. With a format, a block of 1024 bytes is allocated, the message is printed into
  it with the size 1023, and byte 1023 is set to the terminator. \<open>expand\<close> is the
  expansion of a format with its arguments that libc computes.
\<close>

definition dir_seterr ::
  "(string \<Rightarrow> 'a list \<Rightarrow> string) \<Rightarrow> (nat \<Rightarrow> char) \<Rightarrow> string option \<Rightarrow> 'a list \<Rightarrow> tracker \<Rightarrow> tracker"
where
  "dir_seterr expand junk fmt va tr =
     (let tr1 = tr\<lparr>dir_fatalerr := None\<rparr> in
      case fmt of
        None \<Rightarrow> tr1
      | Some f \<Rightarrow>
          let b0 = malloc 1024 junk;
              b1 = vsnprintf b0 1023 (expand f va);
              b2 = b1[1023 := NUL]
          in tr1\<lparr>dir_fatalerr := Some b2\<rparr>)"

text \<open>
  What a draw function puts on the terminal, one value per box or screen. The
  terminal itself (\<^verbatim>\<open>nccreate\<close>, \<^verbatim>\<open>ncprint\<close>, \<^verbatim>\<open>cropstr\<close>) is not part of these files;
  a box is named with the strings it is given.
  \<^item> \<open>DrawError cur msg\<close>: \<^verbatim>\<open>draw_error(cur, msg)\<close>, the modal box (lines 159 to 170);
  \<^item> \<open>DrawProgress cur err\<close>: \<^verbatim>\<open>draw_progress()\<close>, the progress box with the current
    path and, when \<open>lasterr\<close> is set, the warning line (lines 120 to 156); its
    counters and its animation frame are left out.
\<close>

datatype draw_op =
    DrawBrowse
  | DrawError "string option" string
  | DrawProgress "string option" "string option"
  | DrawHelp
  | DrawShell
  | DrawDelete
  | DrawQuit

text \<open>\<^verbatim>\<open>dir_draw\<close> (lines 173 to 179).\<close>

definition dir_draw :: "tracker \<Rightarrow> draw_op list" where
  "dir_draw tr =
     DrawBrowse #
     (case dir_fatalerr tr of
        Some msg \<Rightarrow> [DrawError (dir_curpath tr) (c_str msg)]
      | None \<Rightarrow> [DrawProgress (dir_curpath tr) (lasterr tr)])"

text \<open>\<^verbatim>\<open>dir_key\<close> (lines 182 to 188); \<open>113\<close> is the character \<open>q\<close>.\<close>

definition dir_key :: "tracker \<Rightarrow> int \<Rightarrow> int" where
  "dir_key tr ch =
     (if dir_fatalerr tr \<noteq> None then 1
      else if ch = 113 then 1
      else 0)"

section \<open>main.c: the option globals\<close>

text \<open>
  The settings the option parser writes. \<open>update_delay\<close>, \<open>read_only\<close>, \<open>cachedir_tags\<close>,
  \<open>extended_info\<close>, \<open>follow_symlinks\<close>, \<open>follow_firmlinks\<close> and \<open>confirm_quit\<close> are
  defined in \<^verbatim>\<open>main.c\<close> (lines 38 to 44); \<open>dir_scan_smfs\<close>, \<open>dir_ui\<close>, \<open>si\<close>,
  \<open>exclude_kernfs\<close> and \<open>uic_theme\<close> are globals of other files that \<^verbatim>\<open>main.c\<close>
  assigns. \<open>excludes\<close> records the calls of \<^verbatim>\<open>exclude_add\<close> and \<^verbatim>\<open>exclude_addfile\<close>, in
  order.
\<close>

datatype exclude_rule = ExcludePattern string | ExcludeFile string

record config =
  update_delay :: int
  read_only :: int
  cachedir_tags :: int
  extended_info :: int
  follow_symlinks :: int
  follow_firmlinks :: int
  confirm_quit :: int
  dir_scan_smfs :: int
  dir_ui :: int
  si :: int
  exclude_kernfs :: int
  uic_theme :: int
  excludes :: "exclude_rule list"

section \<open>main.c: the redraw and input scheduler\<close>

text \<open>
  Modelled from the spec: the macros \<^verbatim>\<open>ST_CALC\<close> to \<^verbatim>\<open>ST_QUIT\<close> of \<^verbatim>\<open>global.h\<close>, which
  is not among these files. The spec's Mode is a closed enumeration of six states, one
  per macro that \<^verbatim>\<open>screen_draw\<close> names.
\<close>

datatype pstate = ST_CALC | ST_BROWSE | ST_HELP | ST_SHELL | ST_DEL | ST_QUIT

text \<open>
  The static variables of \<^verbatim>\<open>main.c\<close> that the scheduler reads and writes (lines 46 to
  49), the \<^verbatim>\<open>nodelay\<close> mode it sets on the window, and \<open>redraws\<close>: one entry per call
  of \<^verbatim>\<open>screen_draw\<close>, holding what that call drew.
\<close>

record sched =
  lastupdate :: int
  ncurses_init :: int
  min_rows :: int
  min_cols :: int
  nodelay_mode :: bool
  redraws :: "draw_op list list"

definition sched_init :: sched where
  "sched_init =
     \<lparr>lastupdate = 999, ncurses_init = 0, min_rows = 17, min_cols = 60,
      nodelay_mode = False, redraws = []\<rparr>"

text \<open>What \<^verbatim>\<open>screen_draw\<close> (lines 52 to 61) draws in a state.\<close>

definition screen :: "pstate \<Rightarrow> tracker \<Rightarrow> draw_op list" where
  "screen ps tr =
     (case ps of
        ST_CALC \<Rightarrow> dir_draw tr
      | ST_BROWSE \<Rightarrow> [DrawBrowse]
      | ST_HELP \<Rightarrow> [DrawHelp]
      | ST_SHELL \<Rightarrow> [DrawShell]
      | ST_DEL \<Rightarrow> [DrawDelete]
      | ST_QUIT \<Rightarrow> [DrawQuit])"

definition screen_draw :: "pstate \<Rightarrow> tracker \<Rightarrow> sched \<Rightarrow> sched" where
  "screen_draw ps tr s = s\<lparr>redraws := redraws s @ [screen ps tr]\<rparr>"

text \<open>The result of \<^verbatim>\<open>gettimeofday\<close>.\<close>

record timeval =
  tv_sec :: int
  tv_usec :: int

text \<open>
  The time bucket of line 77, in C's integer arithmetic (division and remainder
  truncate towards zero):
  \<^verbatim>\<open>(1000*(tv.tv_sec % 1000) + (tv.tv_usec / 1000)) / update_delay\<close>.
\<close>

definition bucket :: "int \<Rightarrow> timeval \<Rightarrow> int" where
  "bucket delay tv = (1000 * (tv_sec tv smod 1000) + (tv_usec tv sdiv 1000)) sdiv delay"

text \<open>
  What \<^verbatim>\<open>getch\<close> returns before it returns \<^verbatim>\<open>ERR\<close>: \<open>KeyResize rc\<close> is \<^verbatim>\<open>KEY_RESIZE\<close>,
  with the value \<open>rc\<close> that \<^verbatim>\<open>ncresize\<close> returns when it is called for this
  notification; \<open>Key ch\<close> is any other key code. \<open>errno\<close> is the error number found when
  \<^verbatim>\<open>getch\<close> returns \<^verbatim>\<open>ERR\<close>: without \<^verbatim>\<open>nodelay\<close> that is a failed read, with it also
  an empty queue.
\<close>

datatype input_ev = KeyResize int | Key int

datatype errno = E_NONE | EPIPE | EBADF | EIO | E_OTHER

text \<open>The key handlers of the other modes; their files are not among these sources.\<close>

record key_handlers =
  browse_key :: "int \<Rightarrow> int"
  help_key :: "int \<Rightarrow> int"
  delete_key :: "int \<Rightarrow> int"
  quit_key :: "int \<Rightarrow> int"

text \<open>
  The read loop of \<^verbatim>\<open>input_handle\<close> (lines 90 to 107). The result is the value a key
  handler returned (\<open>None\<close> when \<^verbatim>\<open>getch\<close> returned \<^verbatim>\<open>ERR\<close> first), the input not yet
  read, and the state. A resize renegotiates the minimum size, sets \<^verbatim>\<open>nodelay\<close> again
  and draws. The \<^verbatim>\<open>switch\<close> has no case for \<^verbatim>\<open>ST_SHELL\<close>: there line 106 draws and the
  loop goes on.
\<close>

fun getch_loop ::
  "key_handlers \<Rightarrow> tracker \<Rightarrow> pstate \<Rightarrow> int \<Rightarrow> input_ev list \<Rightarrow> sched
     \<Rightarrow> int option \<times> input_ev list \<times> sched"
where
  "getch_loop kh tr ps wait [] s = (None, [], s)"
| "getch_loop kh tr ps wait (KeyResize rc # evs) s =
     getch_loop kh tr ps wait evs
       (screen_draw ps tr
          ((if rc \<noteq> 0 then s\<lparr>min_rows := 0, min_cols := 0\<rparr> else s)
             \<lparr>nodelay_mode := (wait \<noteq> 0)\<rparr>))"
| "getch_loop kh tr ps wait (Key ch # evs) s =
     (case ps of
        ST_CALC \<Rightarrow> (Some (dir_key tr ch), evs, s)
      | ST_BROWSE \<Rightarrow> (Some (browse_key kh ch), evs, s)
      | ST_HELP \<Rightarrow> (Some (help_key kh ch), evs, s)
      | ST_DEL \<Rightarrow> (Some (delete_key kh ch), evs, s)
      | ST_QUIT \<Rightarrow> (Some (quit_key kh ch), evs, s)
      | ST_SHELL \<Rightarrow> getch_loop kh tr ps wait evs (screen_draw ps tr s))"

text \<open>
  The first part of \<^verbatim>\<open>input_handle\<close> (lines 73 to 82): draw always unless \<open>wait\<close> is
  1; with \<open>wait = 1\<close> compute the bucket and draw only when it differs from
  \<open>lastupdate\<close>, which then takes the bucket.
\<close>

definition draw_if_due ::
  "tracker \<Rightarrow> config \<Rightarrow> pstate \<Rightarrow> int \<Rightarrow> timeval \<Rightarrow> sched \<Rightarrow> failure + sched"
where
  "draw_if_due tr conf ps wait tv s =
     (if wait \<noteq> 1 then Inr (screen_draw ps tr s)
      else if update_delay conf = 0 then Inl DivByZero
      else let b = bucket (update_delay conf) tv
           in if lastupdate s \<noteq> b then Inr ((screen_draw ps tr s)\<lparr>lastupdate := b\<rparr>)
              else Inr s)"

text \<open>
  \<^verbatim>\<open>input_handle\<close> (lines 69 to 111). The result is the returned value, the input left
  unread, and the state.
\<close>

definition input_handle ::
  "key_handlers \<Rightarrow> tracker \<Rightarrow> config \<Rightarrow> pstate \<Rightarrow> int \<Rightarrow> timeval \<Rightarrow> input_ev list \<Rightarrow> errno
     \<Rightarrow> sched \<Rightarrow> failure + (int \<times> input_ev list \<times> sched)"
where
  "input_handle kh tr conf ps wait tv evs err s =
     (case draw_if_due tr conf ps wait tv s of
        Inl e \<Rightarrow> Inl e
      | Inr s1 \<Rightarrow>
          if ncurses_init s1 = 0 then Inr (if wait = 0 then 1 else 0, evs, s1)
          else
            (case getch_loop kh tr ps wait evs (s1\<lparr>nodelay_mode := (wait \<noteq> 0)\<rparr>) of
               (Some r, rest, s2) \<Rightarrow> Inr (r, rest, s2)
             | (None, rest, s2) \<Rightarrow>
                 Inr (if err = EPIPE \<or> err = EBADF \<or> err = EIO then 1 else 0, rest, s2)))"

text \<open>
  A run of throttled ticks: \<^verbatim>\<open>input_handle(1)\<close> called once per element, each call
  with the globals, the clock and the input of its moment. The run goes on whatever a
  call returns.
\<close>

record tick =
  t_tracker :: tracker
  t_config :: config
  t_pstate :: pstate
  t_time :: timeval
  t_events :: "input_ev list"
  t_errno :: errno

fun throttled_ticks :: "key_handlers \<Rightarrow> tick list \<Rightarrow> sched \<Rightarrow> failure + sched" where
  "throttled_ticks kh [] s = Inr s"
| "throttled_ticks kh (t # ts) s =
     (case input_handle kh (t_tracker t) (t_config t) (t_pstate t) 1 (t_time t)
             (t_events t) (t_errno t) s of
        Inl e \<Rightarrow> Inl e
      | Inr (r, rest, s') \<Rightarrow> throttled_ticks kh ts s')"

text \<open>
  Whether the read loop, started in a state on a queue, reads no resize notification
  and no key of the shell state. The loop reads the queue from its head; outside the
  shell state it returns on the first key it reads, and what is behind that key stays
  unread; a resize notification, and in the shell state a key, is read and the loop
  goes on. So the loop reads neither exactly when the queue is empty, or its first
  event is a key and the state is not the shell state.
\<close>

fun reads_quietly :: "pstate \<Rightarrow> input_ev list \<Rightarrow> bool" where
  "reads_quietly ps [] = True"
| "reads_quietly ps (KeyResize rc # evs) = False"
| "reads_quietly ps (Key ch # evs) = (ps \<noteq> ST_SHELL)"

section \<open>main.c: the argument parser\<close>

text \<open>
  \<^verbatim>\<open>struct argparser\<close> (lines 116 to 124). \<open>argv\<close> holds the arguments not yet popped
  (\<open>argc\<close> is its length); a \<^verbatim>\<open>char *\<close> that may be NULL is an option; \<open>last'\<close> is the
  field \<^verbatim>\<open>last\<close> and holds the string it points to, which for a short option is the
  content of \<^verbatim>\<open>shortbuf\<close>.
\<close>

record argparser =
  argv :: "string list"
  shortopt :: "string option"
  last' :: "string option"
  last_arg :: "string option"
  argsep :: bool

text \<open>A string between apostrophes, as the messages print an option.\<close>

definition quoted :: "string \<Rightarrow> string" where
  "quoted s = [CHR 0x27] @ s @ [CHR 0x27]"

text \<open>What \<^verbatim>\<open>%s\<close> prints for a \<^verbatim>\<open>char *\<close>; glibc prints \<open>(null)\<close> for NULL.\<close>

definition printed :: "string option \<Rightarrow> string" where
  "printed s = (case s of None \<Rightarrow> ''(null)'' | Some t \<Rightarrow> t)"

text \<open>\<^verbatim>\<open>argparser_pop\<close> (lines 126 to 133).\<close>

definition argparser_pop :: "argparser \<Rightarrow> string option \<times> argparser" where
  "argparser_pop p =
     (case argv p of
        [] \<Rightarrow> (None, p)
      | a # rest \<Rightarrow> (Some a, p\<lparr>argv := rest\<rparr>))"

text \<open>
  \<^verbatim>\<open>argparser_shortopt\<close> (lines 135 to 141). \<^verbatim>\<open>shortbuf\<close> takes the dash and the first
  character of \<open>buf\<close>; \<^verbatim>\<open>shortopt\<close> keeps the rest of \<open>buf\<close> when there is one. The two
  bytes of \<^verbatim>\<open>shortbuf\<close> are followed in the struct by the byte \<^verbatim>\<open>argsep\<close>, which is
  what ends the string \<^verbatim>\<open>last\<close> points to: the string is the two characters when
  \<^verbatim>\<open>argsep\<close> is 0, and has the byte 1 behind them otherwise. On an empty \<open>buf\<close> the
  code reads \<^verbatim>\<open>buf[1]\<close> behind the terminator.
\<close>

definition argparser_shortopt :: "argparser \<Rightarrow> string \<Rightarrow> failure + (int \<times> argparser)" where
  "argparser_shortopt p buf =
     (case buf of
        [] \<Rightarrow> Inl OutOfBounds
      | c # rest \<Rightarrow>
          Inr (1, p\<lparr>shortopt := (if rest \<noteq> [] then Some rest else None),
                     last' := Some ([CHR ''-'', c] @ (if argsep p then [CHR 0x01] else []))\<rparr>))"

text \<open>
  \<^verbatim>\<open>argparser_next\<close> (lines 144 to 165): 0 when done, 1 for an option, 2 for a
  positional argument. A long option is cut at its first \<open>=\<close>; what follows the \<open>=\<close>
  becomes \<^verbatim>\<open>last_arg\<close>.
\<close>

function argparser_next :: "argparser \<Rightarrow> failure + (int \<times> argparser)" where
  "argparser_next p =
     (if last_arg p \<noteq> None
      then Inl (Die (''Option '' @ quoted (printed (last' p)) @ '' does not expect an argument.\<newline>''))
      else
        (case shortopt p of
           Some buf \<Rightarrow> argparser_shortopt p buf
         | None \<Rightarrow>
             (case argparser_pop p of
                (None, p0) \<Rightarrow> Inr (0, p0\<lparr>last' := None\<rparr>)
              | (Some a, p0) \<Rightarrow>
                  let p1 = p0\<lparr>last' := Some a\<rparr> in
                  if argsep p1 \<or> a = [] \<or> hd a \<noteq> CHR ''-'' then Inr (2, p1)
                  else if tl a = [] then Inl (Die (''Invalid option '' @ quoted ''-'' @ ''.\<newline>''))
                  else if hd (tl a) = CHR ''-'' \<and> tl (tl a) = []
                    then argparser_next (p1\<lparr>argsep := True\<rparr>)
                  else if hd (tl a) = CHR ''-''
                    then (if CHR ''='' \<in> set a
                          then Inr (1, p1\<lparr>last' := Some (takeWhile (\<lambda>c. c \<noteq> CHR ''='') a),
                                          last_arg := Some (tl (dropWhile (\<lambda>c. c \<noteq> CHR ''='') a))\<rparr>)
                          else Inr (1, p1))
                  else argparser_shortopt p1 (tl a))))"
  by pat_completeness auto
termination
  by (relation "measure (\<lambda>p. length (argv p))")
     (auto simp: argparser_pop_def split: list.splits)

text \<open>\<^verbatim>\<open>argparser_arg\<close> (lines 167 to 182).\<close>

definition argparser_arg :: "argparser \<Rightarrow> failure + (string \<times> argparser)" where
  "argparser_arg p =
     (case shortopt p of
        Some tmp \<Rightarrow> Inr (tmp, p\<lparr>shortopt := None\<rparr>)
      | None \<Rightarrow>
          (case last_arg p of
             Some tmp \<Rightarrow> Inr (tmp, p\<lparr>last_arg := None\<rparr>)
           | None \<Rightarrow>
               (case argparser_pop p of
                  (None, p0) \<Rightarrow>
                    Inl (Die (''Option '' @ quoted (printed (last' p0)) @ '' requires an argument.\<newline>''))
                | (Some tmp, p0) \<Rightarrow> Inr (tmp, p0))))"

text \<open>The macro \<^verbatim>\<open>OPT\<close> (line 184): \<^verbatim>\<open>strcmp\<close> of the whole of \<^verbatim>\<open>last\<close> with a literal.\<close>

definition OPT :: "argparser \<Rightarrow> string \<Rightarrow> bool" where
  "OPT p s = (last' p = Some s)"

text \<open>
  What the parser needs of the rest of the program and of the platform:
  \<^verbatim>\<open>exclude_addfile\<close>, \<^verbatim>\<open>dir_export_init\<close> and \<^verbatim>\<open>dir_import_init\<close> give \<open>None\<close> on
  success and the text of \<^verbatim>\<open>strerror(errno)\<close> on failure; \<open>no_color\<close> says whether the
  variable \<^verbatim>\<open>NO_COLOR\<close> is set; \<open>package_version\<close> is \<^verbatim>\<open>PACKAGE_VERSION\<close>;
  \<open>have_kernfs\<close> and \<open>have_firmlinks\<close> are the conditions of the two \<^verbatim>\<open>#if\<close>.
\<close>

record parse_env =
  exclude_addfile :: "string \<Rightarrow> string option"
  dir_export_init :: "string \<Rightarrow> string option"
  dir_import_init :: "string \<Rightarrow> string option"
  no_color :: bool
  package_version :: string
  have_kernfs :: bool
  have_firmlinks :: bool

text \<open>
  \<^verbatim>\<open>arg_option\<close> (lines 187 to 223): 1 when the option is one of the list, 0 otherwise.
  Line 204 compares with the literal \<^verbatim>\<open>--exclude-form\<close>.
\<close>

definition arg_option ::
  "parse_env \<Rightarrow> config \<Rightarrow> argparser \<Rightarrow> failure + (int \<times> config \<times> argparser)"
where
  "arg_option env c p =
     (if OPT p ''-q'' \<or> OPT p ''--slow-ui-updates'' then Inr (1, c\<lparr>update_delay := 2000\<rparr>, p)
      else if OPT p ''--fast-ui-updates'' then Inr (1, c\<lparr>update_delay := 100\<rparr>, p)
      else if OPT p ''-x'' \<or> OPT p ''--one-file-system'' then Inr (1, c\<lparr>dir_scan_smfs := 1\<rparr>, p)
      else if OPT p ''--cross-file-system'' then Inr (1, c\<lparr>dir_scan_smfs := 0\<rparr>, p)
      else if OPT p ''-e'' \<or> OPT p ''--extended'' then Inr (1, c\<lparr>extended_info := 1\<rparr>, p)
      else if OPT p ''--no-extended'' then Inr (1, c\<lparr>extended_info := 0\<rparr>, p)
      else if OPT p ''-r'' then Inr (1, c\<lparr>read_only := read_only c + 1\<rparr>, p)
      else if OPT p ''-0'' then Inr (1, c\<lparr>dir_ui := 0\<rparr>, p)
      else if OPT p ''-1'' then Inr (1, c\<lparr>dir_ui := 1\<rparr>, p)
      else if OPT p ''-2'' then Inr (1, c\<lparr>dir_ui := 2\<rparr>, p)
      else if OPT p ''--si'' then Inr (1, c\<lparr>si := 1\<rparr>, p)
      else if OPT p ''--no-si'' then Inr (1, c\<lparr>si := 0\<rparr>, p)
      else if OPT p ''-L'' \<or> OPT p ''--follow-symlinks'' then Inr (1, c\<lparr>follow_symlinks := 1\<rparr>, p)
      else if OPT p ''--no-follow-symlinks'' then Inr (1, c\<lparr>follow_symlinks := 0\<rparr>, p)
      else if OPT p ''--exclude''
        then (case argparser_arg p of
                Inl e \<Rightarrow> Inl e
              | Inr (arg, p') \<Rightarrow> Inr (1, c\<lparr>excludes := excludes c @ [ExcludePattern arg]\<rparr>, p'))
      else if OPT p ''-X'' \<or> OPT p ''--exclude-form''
        then (case argparser_arg p of
                Inl e \<Rightarrow> Inl e
              | Inr (arg, p') \<Rightarrow>
                  (case exclude_addfile env arg of
                     Some msg \<Rightarrow> Inl (Die (''Can't open '' @ arg @ '': '' @ msg @ ''\<newline>''))
                   | None \<Rightarrow> Inr (1, c\<lparr>excludes := excludes c @ [ExcludeFile arg]\<rparr>, p')))
      else if OPT p ''--exclude-caches'' then Inr (1, c\<lparr>cachedir_tags := 1\<rparr>, p)
      else if OPT p ''--include-caches'' then Inr (1, c\<lparr>cachedir_tags := 0\<rparr>, p)
      else if OPT p ''--exclude-kernfs'' then Inr (1, c\<lparr>exclude_kernfs := 1\<rparr>, p)
      else if OPT p ''--include-kernfs'' then Inr (1, c\<lparr>exclude_kernfs := 0\<rparr>, p)
      else if OPT p ''--follow-firmlinks'' then Inr (1, c\<lparr>follow_firmlinks := 1\<rparr>, p)
      else if OPT p ''--exclude-firmlinks'' then Inr (1, c\<lparr>follow_firmlinks := 0\<rparr>, p)
      else if OPT p ''--confirm-quit'' then Inr (1, c\<lparr>confirm_quit := 1\<rparr>, p)
      else if OPT p ''--no-confirm-quit'' then Inr (1, c\<lparr>confirm_quit := 0\<rparr>, p)
      else if OPT p ''--color''
        then (case argparser_arg p of
                Inl e \<Rightarrow> Inl e
              | Inr (arg, p') \<Rightarrow>
                  if arg = ''off'' then Inr (1, c\<lparr>uic_theme := 0\<rparr>, p')
                  else if arg = ''dark'' then Inr (1, c\<lparr>uic_theme := 1\<rparr>, p')
                  else if arg = ''dark-bg'' then Inr (1, c\<lparr>uic_theme := 2\<rparr>, p')
                  else Inl (Die (''Unknown --color option: '' @ arg @ ''\<newline>'')))
      else Inr (0, c, p))"


text \<open>
  \<^verbatim>\<open>arg_help\<close> (lines 225 to 250): the text it prints before \<^verbatim>\<open>exit(0)\<close>. Two lines
  depend on the platform.
\<close>

definition arg_help :: "parse_env \<Rightarrow> string" where
  "arg_help env =
     ''ncdu <options> <directory>\<newline>\<newline>'' @
     ''  -h,--help                  This help message\<newline>'' @
     ''  -q                         Quiet mode, refresh interval 2 seconds\<newline>'' @
     ''  -v,-V,--version            Print version\<newline>'' @
     ''  -x                         Same filesystem\<newline>'' @
     ''  -e                         Enable extended information\<newline>'' @
     ''  -r                         Read only\<newline>'' @
     ''  -o FILE                    Export scanned directory to FILE\<newline>'' @
     ''  -f FILE                    Import scanned directory from FILE\<newline>'' @
     ''  -0,-1,-2                   UI to use when scanning (0=none,2=full ncurses)\<newline>'' @
     ''  --si                       Use base 10 (SI) prefixes instead of base 2\<newline>'' @
     ''  --exclude PATTERN          Exclude files that match PATTERN\<newline>'' @
     ''  -X, --exclude-from FILE    Exclude files that match any pattern in FILE\<newline>'' @
     ''  -L, --follow-symlinks      Follow symbolic links (excluding directories)\<newline>'' @
     ''  --exclude-caches           Exclude directories containing CACHEDIR.TAG\<newline>'' @
     (if have_kernfs env
      then ''  --exclude-kernfs           Exclude Linux pseudo filesystems (procfs,sysfs,cgroup,...)\<newline>''
      else []) @
     (if have_firmlinks env
      then ''  --exclude-firmlinks        Exclude firmlinks on macOS\<newline>''
      else []) @
     ''  --confirm-quit             Confirm quitting ncdu\<newline>'' @
     ''  --color SCHEME             Set color scheme (off/dark/dark-bg)\<newline>''"

text \<open>
  The locals and globals the loop of \<^verbatim>\<open>argv_parse\<close> works on: the parser state, the
  settings, and the locals \<^verbatim>\<open>export\<close>, \<^verbatim>\<open>import\<close> and \<^verbatim>\<open>dir\<close>.
\<close>

record parse_state =
  parser :: argparser
  cfg :: config
  export :: "string option"
  import :: "string option"
  dir :: "string option"

text \<open>
  What is left to read: every pending argument with its terminator, and the pending
  short options. Each step of the parser that returns an option or an argument makes
  it smaller.
\<close>

definition pending :: "argparser \<Rightarrow> nat" where
  "pending p =
     sum_list (map (\<lambda>a. Suc (length a)) (argv p))
     + (case shortopt p of None \<Rightarrow> 0 | Some b \<Rightarrow> length b)"

lemma argparser_pop_pending:
  "argparser_pop p = (Some a, p0) \<Longrightarrow>
     pending p0 + Suc (length a) = pending p \<and> shortopt p0 = shortopt p"
  by (auto simp: argparser_pop_def pending_def split: list.splits)

lemma argparser_shortopt_pending:
  "argparser_shortopt p buf = Inr (r, p') \<Longrightarrow>
     argv p' = argv p \<and> (case shortopt p' of None \<Rightarrow> 0 | Some b \<Rightarrow> length b) < length buf"
  by (auto simp: argparser_shortopt_def split: list.splits if_splits)

lemma argparser_next_pending:
  "argparser_next p = Inr (r, p') \<Longrightarrow> r \<noteq> 0 \<Longrightarrow> pending p' < pending p"
proof (induction p arbitrary: r p' rule: argparser_next.induct)
  case (1 p)
  from "1.prems" have la: "last_arg p = None"
    by (subst (asm) argparser_next.simps) (simp split: if_splits)
  show ?case
  proof (cases "shortopt p")
    case (Some buf)
    with la "1.prems" have "argparser_shortopt p buf = Inr (r, p')"
      by (subst (asm) argparser_next.simps) simp
    from argparser_shortopt_pending[OF this] Some show ?thesis
      by (simp add: pending_def)
  next
    case None
    show ?thesis
    proof (cases "argparser_pop p")
      case (Pair x p0)
      show ?thesis
      proof (cases x)
        case None
        with Pair \<open>shortopt p = None\<close> la "1.prems" show ?thesis
          by (subst (asm) argparser_next.simps) simp
      next
        case (Some a)
        note pop = argparser_pop_pending[OF Pair[unfolded Some]]
        let ?p1 = "p0\<lparr>last' := Some a\<rparr>"
        have p1: "pending ?p1 + Suc (length a) = pending p" "shortopt ?p1 = None" "pending (?p1\<lparr>argsep := True\<rparr>) = pending ?p1"
          using pop \<open>shortopt p = None\<close> by (auto simp: pending_def)
        from "1.prems"(1) la \<open>shortopt p = None\<close> Pair Some
        have step: "(if argsep ?p1 \<or> a = [] \<or> hd a \<noteq> CHR ''-'' then Inr (2, ?p1)
                  else if tl a = [] then Inl (Die (''Invalid option '' @ quoted ''-'' @ ''.\<newline>''))
                  else if hd (tl a) = CHR ''-'' \<and> tl (tl a) = []
                    then argparser_next (?p1\<lparr>argsep := True\<rparr>)
                  else if hd (tl a) = CHR ''-''
                    then (if CHR ''='' \<in> set a
                          then Inr (1, ?p1\<lparr>last' := Some (takeWhile (\<lambda>c. c \<noteq> CHR ''='') a),
                                          last_arg := Some (tl (dropWhile (\<lambda>c. c \<noteq> CHR ''='') a))\<rparr>)
                          else Inr (1, ?p1))
                  else argparser_shortopt ?p1 (tl a)) = Inr (r, p')"
          by (subst (asm) argparser_next.simps) (simp add: Let_def)
        consider (pos) "argsep ?p1 \<or> a = [] \<or> hd a \<noteq> CHR ''-''"
          | (sep) "\<not> (argsep ?p1 \<or> a = [] \<or> hd a \<noteq> CHR ''-'')" "tl a \<noteq> []" "hd (tl a) = CHR ''-'' \<and> tl (tl a) = []"
          | (long) "\<not> (argsep ?p1 \<or> a = [] \<or> hd a \<noteq> CHR ''-'')" "tl a \<noteq> []" "\<not> (hd (tl a) = CHR ''-'' \<and> tl (tl a) = [])" "hd (tl a) = CHR ''-''"
          | (short) "\<not> (argsep ?p1 \<or> a = [] \<or> hd a \<noteq> CHR ''-'')" "tl a \<noteq> []" "hd (tl a) \<noteq> CHR ''-''"
          | (bad) "\<not> (argsep ?p1 \<or> a = [] \<or> hd a \<noteq> CHR ''-'')" "tl a = []"
          by blast
        then show ?thesis
        proof cases
          case pos
          with step have "p' = ?p1" by simp
          with p1 show ?thesis by simp
        next
          case sep
          with step have rec: "argparser_next (?p1\<lparr>argsep := True\<rparr>) = Inr (r, p')" by simp
          have "pending p' < pending (?p1\<lparr>argsep := True\<rparr>)"
            using "1.IH"[of x p0 a ?p1 r p'] la \<open>shortopt p = None\<close> Pair Some sep rec "1.prems"(2)
            by simp
          with p1 show ?thesis by simp
        next
          case long
          with step have "pending p' = pending ?p1"
            by (auto simp: pending_def split: if_splits)
          with p1 show ?thesis by simp
        next
          case short
          with step have "argparser_shortopt ?p1 (tl a) = Inr (r, p')" by simp
          from argparser_shortopt_pending[OF this]
          have "pending p' < pending ?p1 + length (tl a)"
            using p1(2) by (simp add: pending_def)
          with p1 show ?thesis by simp
        next
          case bad
          with step show ?thesis by simp
        qed
      qed
    qed
  qed
qed

lemma argparser_arg_pending:
  "argparser_arg p = Inr (a, p') \<Longrightarrow> pending p' \<le> pending p"
  by (auto simp: argparser_arg_def argparser_pop_def pending_def
           split: option.splits list.splits)

lemma arg_option_pending:
  "arg_option env c p = Inr (r, c', p') \<Longrightarrow> pending p' \<le> pending p"
  unfolding arg_option_def
  by (auto split: if_splits sum.splits option.splits dest: argparser_arg_pending)


text \<open>
  The loop of \<^verbatim>\<open>argv_parse\<close> (lines 268 to 277): one call of \<^verbatim>\<open>argparser_next\<close> per
  round, until it returns 0. A positional argument replaces \<^verbatim>\<open>dir\<close>. The version
  and help options leave with \<^verbatim>\<open>exit(0)\<close>. An option that \<^verbatim>\<open>arg_option\<close> does not
  know dies on line 276.
\<close>

function argv_loop :: "parse_env \<Rightarrow> parse_state \<Rightarrow> failure + parse_state" where
  "argv_loop env st =
     (case argparser_next (parser st) of
        Inl e \<Rightarrow> Inl e
      | Inr (r, p) \<Rightarrow>
          if r \<le> 0 then Inr (st\<lparr>parser := p\<rparr>)
          else if r = 2 then argv_loop env (st\<lparr>parser := p, dir := last' p\<rparr>)
          else if OPT p ''-v'' \<or> OPT p ''-V'' \<or> OPT p ''--version''
            then Inl (Exit0 (''ncdu '' @ package_version env @ ''\<newline>''))
          else if OPT p ''-h'' \<or> OPT p ''-?'' \<or> OPT p ''--help''
            then Inl (Exit0 (arg_help env))
          else if OPT p ''-o''
            then (case argparser_arg p of
                    Inl e \<Rightarrow> Inl e
                  | Inr (a, p') \<Rightarrow> argv_loop env (st\<lparr>parser := p', export := Some a\<rparr>))
          else if OPT p ''-f''
            then (case argparser_arg p of
                    Inl e \<Rightarrow> Inl e
                  | Inr (a, p') \<Rightarrow> argv_loop env (st\<lparr>parser := p', import := Some a\<rparr>))
          else (case arg_option env (cfg st) p of
                  Inl e \<Rightarrow> Inl e
                | Inr (known, c', p') \<Rightarrow>
                    if known = 0
                    then Inl (Die (''Unknown option '' @ quoted (printed (last' p')) @ ''.\<newline>''))
                    else argv_loop env (st\<lparr>parser := p', cfg := c'\<rparr>)))"
  by pat_completeness auto
termination
proof (relation "measure (\<lambda>(env, st). pending (parser st))", goal_cases)
  case 1
  show ?case by simp
next
  case (2 env st x r p)
  then show ?case
    using argparser_next_pending[of "parser st" r p] by simp
next
  case (3 env st x r p x' a p')
  then show ?case
    using argparser_next_pending[of "parser st" r p] argparser_arg_pending[of p a p'] by simp
next
  case (4 env st x r p x' a p')
  then show ?case
    using argparser_next_pending[of "parser st" r p] argparser_arg_pending[of p a p'] by simp
next
  case (5 env st x r p x' known y c' p')
  then show ?case
    using argparser_next_pending[of "parser st" r p] arg_option_pending[of env "cfg st" p known c' p']
    by simp
qed

text \<open>
  What \<^verbatim>\<open>argv_parse\<close> hands to the rest of the program: the settings, the output
  backend (\<^verbatim>\<open>dir_export_init\<close> or \<^verbatim>\<open>dir_mem_init\<close>), the input backend
  (\<^verbatim>\<open>dir_import_init\<close> or \<^verbatim>\<open>dir_scan_init\<close>), and the static \<^verbatim>\<open>ncurses_tty\<close>.
\<close>

datatype backend_out = ExportInit string | MemInit

datatype backend_in = ImportInit string | ScanInit string

record startup =
  settings :: config
  output_to :: backend_out
  input_from :: backend_in
  ncurses_tty :: int

text \<open>The parser state after the \<^verbatim>\<open>memset\<close> and the two assignments of lines 263 to 265.\<close>

definition argparser_init :: "string list \<Rightarrow> argparser" where
  "argparser_init args =
     \<lparr>argv = args, shortopt = None, last' = None, last_arg = None, argsep = False\<rparr>"

text \<open>
  \<^verbatim>\<open>argv_parse\<close> (lines 253 to 299), applied to the whole argument vector, program
  name first, and to the settings as they are before the call. The first call of
  \<^verbatim>\<open>argparser_next\<close> skips the program name; its result is not looked at.
\<close>

definition argv_parse :: "parse_env \<Rightarrow> string list \<Rightarrow> config \<Rightarrow> failure + startup" where
  "argv_parse env args c0 =
     (let c1 = c0\<lparr>uic_theme := (if no_color env then 0 else 2), dir_ui := - 1, si := 0\<rparr>
      in case argparser_next (argparser_init args) of
           Inl e \<Rightarrow> Inl e
         | Inr (r0, p1) \<Rightarrow>
             (case argv_loop env \<lparr>parser = p1, cfg = c1, export = None, import = None, dir = None\<rparr> of
                Inl e \<Rightarrow> Inl e
              | Inr st \<Rightarrow>
                  if \<not> have_kernfs env \<and> exclude_kernfs (cfg st) \<noteq> 0
                  then Inl (Die ''The --exclude-kernfs flag is currently only supported on Linux.\<newline>'')
                  else
                    (case (case export st of
                             Some f \<Rightarrow>
                               (case dir_export_init env f of
                                  Some msg \<Rightarrow> Inl (Die (''Can't open '' @ f @ '': '' @ msg @ ''\<newline>''))
                                | None \<Rightarrow> Inr (ExportInit f, if f = ''-'' then 1 else 0))
                           | None \<Rightarrow> Inr (MemInit, 0)) of
                       Inl e \<Rightarrow> Inl e
                     | Inr (out, tty1) \<Rightarrow>
                         (case (case import st of
                                  Some f \<Rightarrow>
                                    (case dir_import_init env f of
                                       Some msg \<Rightarrow> Inl (Die (''Can't open '' @ f @ '': '' @ msg @ ''\<newline>''))
                                     | None \<Rightarrow> Inr (ImportInit f, if f = ''-'' then 1 else tty1))
                                | None \<Rightarrow>
                                    Inr (ScanInit (case dir st of Some d \<Rightarrow> d | None \<Rightarrow> ''.''), tty1)) of
                            Inl e \<Rightarrow> Inl e
                          | Inr (inp, tty2) \<Rightarrow>
                              Inr \<lparr>settings =
                                     (if dir_ui (cfg st) = - 1
                                      then (cfg st)\<lparr>dir_ui :=
                                             (if export st = Some ''-'' then 0
                                              else if export st \<noteq> None then 1 else 2)\<rparr>
                                      else cfg st),
                                   output_to = out, input_from = inp, ncurses_tty = tty2\<rparr>))))"


declare argparser_next.simps [simp del]

declare argv_loop.simps [simp del]

text \<open>
  The names \<^verbatim>\<open>argv_parse\<close> and \<^verbatim>\<open>arg_option\<close> compare an option with (lines 189 to 215
  and 270 to 275).
\<close>

definition known_options :: "string list" where
  "known_options =
     [''-v'', ''-V'', ''--version'', ''-h'', ''-?'', ''--help'', ''-o'', ''-f'',
      ''-q'', ''--slow-ui-updates'', ''--fast-ui-updates'', ''-x'', ''--one-file-system'',
      ''--cross-file-system'', ''-e'', ''--extended'', ''--no-extended'', ''-r'',
      ''-0'', ''-1'', ''-2'', ''--si'', ''--no-si'', ''-L'', ''--follow-symlinks'',
      ''--no-follow-symlinks'', ''--exclude'', ''-X'', ''--exclude-form'',
      ''--exclude-caches'', ''--include-caches'', ''--exclude-kernfs'', ''--include-kernfs'',
      ''--follow-firmlinks'', ''--exclude-firmlinks'', ''--confirm-quit'',
      ''--no-confirm-quit'', ''--color'']"

section \<open>Starting values and stand-ins for closed examples\<close>

text \<open>
  The settings before \<^verbatim>\<open>argv_parse\<close> runs: the initialisers of \<^verbatim>\<open>main.c\<close> (lines 38 to
  44), and 0, the value of static storage without an initialiser, for the globals
  that other files define.
\<close>

definition config_init :: config where
  "config_init =
     \<lparr>update_delay = 100, read_only = 0, cachedir_tags = 0, extended_info = 0,
      follow_symlinks = 0, follow_firmlinks = 1, confirm_quit = 0, dir_scan_smfs = 0,
      dir_ui = 0, si = 0, exclude_kernfs = 0, uic_theme = 0, excludes = []\<rparr>"

text \<open>
  Stand-ins for what these files do not define, used only where an example needs a
  value: key handlers that return 0 (and 1 for the quit screen), and an environment in
  which every file can be opened.
\<close>

definition kh_example :: key_handlers where
  "kh_example =
     \<lparr>browse_key = (\<lambda>ch. 0), help_key = (\<lambda>ch. 0), delete_key = (\<lambda>ch. 0),
      quit_key = (\<lambda>ch. 1)\<rparr>"

definition tick_example :: "pstate \<Rightarrow> int \<Rightarrow> int \<Rightarrow> input_ev list \<Rightarrow> tick" where
  "tick_example ps sec usec evs =
     \<lparr>t_tracker = tracker_init, t_config = config_init, t_pstate = ps,
      t_time = \<lparr>tv_sec = sec, tv_usec = usec\<rparr>, t_events = evs, t_errno = E_NONE\<rparr>"

definition env_example :: parse_env where
  "env_example =
     \<lparr>exclude_addfile = (\<lambda>f. None), dir_export_init = (\<lambda>f. None),
      dir_import_init = (\<lambda>f. None), no_color = False, package_version = ''1.17'',
      have_kernfs = True, have_firmlinks = False\<rparr>"

section \<open>Properties of the path and error tracker\<close>

lemma strrchr_None_iff: "strrchr s c = None \<longleftrightarrow> c \<notin> set s"
  by (induction s) (auto split: option.splits)

lemma strrchr_append_last:
  "c \<notin> set ys \<Longrightarrow> strrchr (xs @ c # ys) c = Some (length xs)"
  by (induction xs) (auto simp: strrchr_None_iff split: option.splits)

lemma update_behind_terminator:
  "(xs @ NUL # ys)[length xs + Suc k := v] = xs @ NUL # ys[k := v]"
  by (simp add: list_update_append)

lemma c_str_behind_terminator: "c_str (xs @ NUL # ys) = c_str xs"
  by (simp add: c_str_def takeWhile_tail)

lemma length_c_str_le: "length (c_str xs) \<le> length xs"
  by (simp add: c_str_def length_takeWhile_le)

lemma length_malloc: "length (malloc n junk) = n"
  by (simp add: malloc_def)

lemma take_min_length: "take (min (length out) k) out = take k out"
  by (simp add: min_def)

lemma vsnprintf_shape:
  "0 < sz \<Longrightarrow>
   vsnprintf buf sz out = take (sz - 1) out @ NUL # drop (Suc (min (length out) (sz - 1))) buf"
  by (simp add: vsnprintf_def Let_def take_min_length del: length_take)

text \<open>
  The block \<^verbatim>\<open>dir_seterr\<close> stores: the first 1022 characters of the expansion, a
  terminator, and the rest of the 1024 bytes.
\<close>

lemma fatal_block_shape:
  "\<exists>rest. (vsnprintf (malloc 1024 junk) 1023 out)[1023 := NUL] = take 1022 out @ NUL # rest
      \<and> length rest + length (take 1022 out) = 1023"
proof -
  let ?xs = "take 1022 out"
  let ?ys = "drop (Suc (min (length out) 1022)) (malloc 1024 junk)"
  define k where "k = 1022 - length ?xs"
  have "length ?xs \<le> 1022" by simp
  then have k: "1023 = length ?xs + Suc k"
    unfolding k_def by linarith
  have "vsnprintf (malloc 1024 junk) 1023 out = ?xs @ NUL # ?ys"
    using vsnprintf_shape[of 1023 "malloc 1024 junk" out] by simp
  then have "(vsnprintf (malloc 1024 junk) 1023 out)[1023 := NUL]
      = (?xs @ NUL # ?ys)[length ?xs + Suc k := NUL]"
    using k by metis
  also have "\<dots> = ?xs @ NUL # ?ys[k := NUL]"
    by (rule update_behind_terminator)
  finally have eq:
    "(vsnprintf (malloc 1024 junk) 1023 out)[1023 := NUL] = ?xs @ NUL # ?ys[k := NUL]" .
  have "length (?ys[k := NUL]) + length ?xs = 1023"
    by (simp add: length_malloc min_def)
  with eq show ?thesis by blast
qed

lemma dir_seterr_Some:
  "dir_fatalerr (dir_seterr expand junk (Some f) va tr)
     = Some ((vsnprintf (malloc 1024 junk) 1023 (expand f va))[1023 := NUL])"
  by (simp add: dir_seterr_def Let_def)

lemma c_str_terminated:
  "NUL \<in> set b \<Longrightarrow> length (c_str b) < length b \<and> b ! length (c_str b) = NUL"
  unfolding c_str_def by (induction b) auto

text \<open>
  What \<^verbatim>\<open>dir_setlasterr\<close> leaves behind when it returns: the recorded path is the
  current path of the moment, whatever the argument; the current path and the fatal
  error are untouched.
\<close>

lemma dir_setlasterr_result:
  "dir_setlasterr (Some p) tr = Inr tr' \<Longrightarrow>
     lasterr tr' = dir_curpath tr \<and> dir_fatalerr tr' = dir_fatalerr tr
     \<and> dir_curpath tr' = dir_curpath tr"
  by (auto simp: dir_setlasterr_def Let_def split: option.splits if_splits)

text \<open>
  Claim C1 says that \<open>record_error(p)\<close> stores \<open>p\<close> itself as the most recent error
  location, for every value of the current path. The code sizes the buffer for \<open>p\<close> and
  then copies the current path: with the current path \<open>/a\<close>, recording the error path
  \<open>/a/b\<close> stores \<open>/a\<close> in a buffer of 5 bytes.
\<close>

theorem dir_setlasterr_stores_curpath_not_path:
  "dir_curpath_set ''/a'' tracker_init
     = Inr (tracker_init\<lparr>dir_curpath := Some ''/a'', curpathl := 128\<rparr>)
   \<and> dir_setlasterr (Some ''/a/b'') (tracker_init\<lparr>dir_curpath := Some ''/a'', curpathl := 128\<rparr>)
     = Inr (tracker_init\<lparr>dir_curpath := Some ''/a'', curpathl := 128,
                          lasterr := Some ''/a'', lasterrl := 5\<rparr>)"
  by (simp add: dir_setlasterr_def dir_curpath_set_def curpath_resize_def tracker_init_def
        int32_def)

text \<open>
  Sizes that fit: an \<^verbatim>\<open>int\<close> holds a length below \<open>2^31\<close> as it is, and a resize to at
  most \<open>2^30\<close> bytes of a buffer of non-negative size returns with room for that many
  bytes and changes nothing but the size.
\<close>

lemma int32_id: "- (2 ^ 31) \<le> n \<Longrightarrow> n < 2 ^ 31 \<Longrightarrow> int32 n = n"
  by (simp add: int32_def)

lemma curpath_resize_fits:
  assumes "0 \<le> curpathl tr" and "s \<le> 2 ^ 30"
  shows "\<exists>n. curpath_resize s tr = Inr (tr\<lparr>curpathl := n\<rparr>) \<and> s \<le> n \<and> curpathl tr \<le> n"
proof (cases "curpathl tr < s")
  case False
  then have "curpath_resize s tr = Inr (tr\<lparr>curpathl := curpathl tr\<rparr>)"
    by (simp add: curpath_resize_def)
  with False show ?thesis by (intro exI[of _ "curpathl tr"]) simp
next
  case True
  with assms have "curpathl tr * 2 < 2 ^ 31" "\<not> curpathl tr * 2 < - (2 ^ 31)"
    by simp_all
  with True show ?thesis
    by (auto simp: curpath_resize_def)
qed

text \<open>
  The round trip for every current path that is \<open>/\<close> or has at least two characters.
  After \<open>enter\<close> the path is the old one, a slash unless the old one is \<open>/\<close>, and the
  name.
\<close>

lemma enter_leave_roundtrip_general:
  assumes cur: "dir_curpath tr = Some cur"
    and shape: "cur = ''/'' \<or> 2 \<le> length cur"
    and name: "CHR ''/'' \<notin> set name"
    and cap: "0 \<le> curpathl tr"
    and len: "int (length cur) + int (length name) + 2 \<le> 2 ^ 30"
  shows "\<exists>n. dir_curpath_enter name tr
                = Inr (tr\<lparr>curpathl := n,
                          dir_curpath := Some (if cur = ''/'' then cur @ name
                                                else (cur @ ''/'') @ name)\<rparr>)
           \<and> dir_curpath_leave (tr\<lparr>curpathl := n,
                          dir_curpath := Some (if cur = ''/'' then cur @ name
                                                else (cur @ ''/'') @ name)\<rparr>)
                = Inr (tr\<lparr>curpathl := n, dir_curpath := Some cur\<rparr>)"
proof -
  let ?s = "int (length cur) + int (length name) + 2"
  have "int32 ?s = ?s"
    using len by (intro int32_id) simp_all
  moreover obtain n where n: "curpath_resize ?s tr = Inr (tr\<lparr>curpathl := n\<rparr>)" "?s \<le> n"
    using curpath_resize_fits[OF cap len] by blast
  ultimately have rs: "curpath_resize (int32 ?s) tr = Inr (tr\<lparr>curpathl := n\<rparr>)"
    by simp
  show ?thesis
  proof (cases "cur = ''/''")
    case True
    have "strrchr (CHR ''/'' # name) CHR ''/'' = Some 0"
      using name strrchr_append_last[of "CHR ''/''" name "[]"] by simp
    with True cur rs n(2) show ?thesis
      by (intro exI[of _ n]) (simp add: dir_curpath_enter_def dir_curpath_leave_def)
  next
    case False
    with shape obtain c d rest where c: "cur = c # d # rest"
      by (cases cur; cases "tl cur") auto
    have "strrchr (cur @ CHR ''/'' # name) CHR ''/'' = Some (length cur)"
      using name by (rule strrchr_append_last)
    with False cur rs n(2) c show ?thesis
      by (intro exI[of _ n]) (simp add: dir_curpath_enter_def dir_curpath_leave_def)
  qed
qed

text \<open>
  Claim C2: \<open>enter(name)\<close> immediately followed by \<open>leave()\<close> leaves the current path
  as it was, for every starting path, \<open>/\<close> included, and every segment name. The
  current path is an absolute path, a slash and what follows it, and a segment holds
  no slash. The sizes are those the code's \<^verbatim>\<open>int\<close> of 32 bits can hold and double: the
  allocated size is a non-negative \<^verbatim>\<open>int\<close> and the new path needs at most \<open>2^30\<close>
  bytes. Both calls return; after
  \<open>enter\<close> the path is the old one, a slash unless it is the root, and the name; after
  \<open>leave\<close> the state is the one before the pair, but for the allocated size.
\<close>

theorem enter_leave_roundtrip:
  assumes "dir_curpath tr = Some (CHR ''/'' # rest)"
    and "CHR ''/'' \<notin> set name"
    and "0 \<le> curpathl tr \<and> curpathl tr < 2 ^ 31"
    and "int (length rest) + int (length name) + 3 \<le> 2 ^ 30"
  shows "\<exists>tr1 tr2. dir_curpath_enter name tr = Inr tr1
            \<and> dir_curpath tr1 = Some (if rest = [] then CHR ''/'' # name
                                       else (CHR ''/'' # rest) @ CHR ''/'' # name)
            \<and> dir_curpath_leave tr1 = Inr tr2
            \<and> dir_curpath tr2 = Some (CHR ''/'' # rest)
            \<and> tr2 = tr\<lparr>curpathl := curpathl tr2\<rparr>"
proof -
  let ?cur = "CHR ''/'' # rest"
  have shape: "?cur = ''/'' \<or> 2 \<le> length ?cur"
    by (cases rest) simp_all
  have len: "int (length ?cur) + int (length name) + 2 \<le> 2 ^ 30"
    using assms(4) by simp
  have cap: "0 \<le> curpathl tr"
    using assms(3) by simp
  from enter_leave_roundtrip_general[OF assms(1) shape assms(2) cap len]
  obtain n where
    e: "dir_curpath_enter name tr
          = Inr (tr\<lparr>curpathl := n,
                    dir_curpath := Some (if ?cur = ''/'' then ?cur @ name
                                          else (?cur @ ''/'') @ name)\<rparr>)"
    and l: "dir_curpath_leave (tr\<lparr>curpathl := n,
                    dir_curpath := Some (if ?cur = ''/'' then ?cur @ name
                                          else (?cur @ ''/'') @ name)\<rparr>)
          = Inr (tr\<lparr>curpathl := n, dir_curpath := Some ?cur\<rparr>)"
    by blast
  define mid where
    "mid = (if rest = [] then CHR ''/'' # name else (CHR ''/'' # rest) @ CHR ''/'' # name)"
  have mid: "(if ?cur = ''/'' then ?cur @ name else (?cur @ ''/'') @ name) = mid"
    by (simp add: mid_def)
  let ?tr1 = "tr\<lparr>curpathl := n, dir_curpath := Some mid\<rparr>"
  let ?tr2 = "tr\<lparr>curpathl := n, dir_curpath := Some ?cur\<rparr>"
  have c1: "dir_curpath_enter name tr = Inr ?tr1"
    using e unfolding mid .
  have c2: "dir_curpath ?tr1 = Some mid"
    by simp
  have c3: "dir_curpath_leave ?tr1 = Inr ?tr2"
    using l unfolding mid .
  have c4: "dir_curpath ?tr2 = Some ?cur"
    by simp
  have c5: "?tr2 = tr\<lparr>curpathl := curpathl ?tr2\<rparr>"
    using assms(1) by simp
  from c1 c2 c3 c4 c5 have
    "dir_curpath_enter name tr = Inr ?tr1 \<and> dir_curpath ?tr1 = Some mid
      \<and> dir_curpath_leave ?tr1 = Inr ?tr2 \<and> dir_curpath ?tr2 = Some ?cur
      \<and> ?tr2 = tr\<lparr>curpathl := curpathl ?tr2\<rparr>"
    by (intro conjI)
  then show ?thesis
    unfolding mid_def by blast
qed

theorem enter_leave_roundtrip_witness:
  "(\<exists>tr1 tr2. dir_curpath_enter ''etc'' (tracker_init\<lparr>dir_curpath := Some ''/'', curpathl := 128\<rparr>)
                 = Inr tr1
       \<and> dir_curpath tr1 = Some ''/etc''
       \<and> dir_curpath_leave tr1 = Inr tr2 \<and> dir_curpath tr2 = Some ''/'')
   \<and> (\<exists>tr1 tr2. dir_curpath_enter ''lib''
                   (tracker_init\<lparr>dir_curpath := Some ''/usr'', curpathl := 128\<rparr>) = Inr tr1
       \<and> dir_curpath tr1 = Some ''/usr/lib''
       \<and> dir_curpath_leave tr1 = Inr tr2 \<and> dir_curpath tr2 = Some ''/usr'')"
  using enter_leave_roundtrip[of "tracker_init\<lparr>dir_curpath := Some ''/'', curpathl := 128\<rparr>"
          "[]" "''etc''"]
        enter_leave_roundtrip[of "tracker_init\<lparr>dir_curpath := Some ''/usr'', curpathl := 128\<rparr>"
          "''usr''" "''lib''"]
  by (auto simp: tracker_init_def)

text \<open>
  The states of the witness are the ones \<^verbatim>\<open>dir_curpath_set\<close> gives on the initial
  globals.
\<close>

lemma dir_curpath_set_init_examples:
  "dir_curpath_set ''/'' tracker_init
     = Inr (tracker_init\<lparr>dir_curpath := Some ''/'', curpathl := 128\<rparr>)"
  "dir_curpath_set ''/usr'' tracker_init
     = Inr (tracker_init\<lparr>dir_curpath := Some ''/usr'', curpathl := 128\<rparr>)"
  "dir_curpath_set ''tmp'' tracker_init
     = Inr (tracker_init\<lparr>dir_curpath := Some ''tmp'', curpathl := 128\<rparr>)"
  by (simp_all add: dir_curpath_set_def curpath_resize_def tracker_init_def int32_def)

text \<open>
  Outside these paths and names the pair is not the identity: a path of one character
  other than the slash gets no separator, and a name with a slash is removed only in
  part.
\<close>

lemma enter_leave_outside_domain:
  "dir_curpath_enter ''b'' (tracker_init\<lparr>dir_curpath := Some ''a'', curpathl := 128\<rparr>)
     = Inr (tracker_init\<lparr>dir_curpath := Some ''ab'', curpathl := 128\<rparr>)
   \<and> dir_curpath_leave (tracker_init\<lparr>dir_curpath := Some ''ab'', curpathl := 128\<rparr>)
     = Inr (tracker_init\<lparr>dir_curpath := Some ''/'', curpathl := 128\<rparr>)
   \<and> dir_curpath_enter ''a/b'' (tracker_init\<lparr>dir_curpath := Some ''/x'', curpathl := 128\<rparr>)
     = Inr (tracker_init\<lparr>dir_curpath := Some ''/x/a/b'', curpathl := 128\<rparr>)
   \<and> dir_curpath_leave (tracker_init\<lparr>dir_curpath := Some ''/x/a/b'', curpathl := 128\<rparr>)
     = Inr (tracker_init\<lparr>dir_curpath := Some ''/x/a'', curpathl := 128\<rparr>)"
  by (simp add: dir_curpath_enter_def dir_curpath_leave_def curpath_resize_def
        tracker_init_def int32_def)

text \<open>
  Claim C9: \<open>leave()\<close> on the path \<open>/\<close> changes nothing, and \<open>leave()\<close> on a path with
  no slash resets the path to \<open>/\<close> and nothing else.
\<close>

theorem dir_curpath_leave_edge_cases:
  assumes "dir_curpath tr = Some cur"
  shows "(cur = ''/'' \<longrightarrow> dir_curpath_leave tr = Inr tr)
       \<and> (CHR ''/'' \<notin> set cur \<longrightarrow>
            dir_curpath_leave tr = Inr (tr\<lparr>dir_curpath := Some ''/''\<rparr>))"
  using assms strrchr_None_iff[of cur "CHR ''/''"]
  by (auto simp: dir_curpath_leave_def)

theorem dir_curpath_leave_edge_cases_witness:
  "dir_curpath_leave (tracker_init\<lparr>dir_curpath := Some ''/'', curpathl := 128\<rparr>)
     = Inr (tracker_init\<lparr>dir_curpath := Some ''/'', curpathl := 128\<rparr>)
   \<and> dir_curpath_leave (tracker_init\<lparr>dir_curpath := Some ''tmp'', curpathl := 128\<rparr>)
       = Inr (tracker_init\<lparr>dir_curpath := Some ''/'', curpathl := 128\<rparr>)"
  using dir_curpath_leave_edge_cases[of
          "tracker_init\<lparr>dir_curpath := Some ''/'', curpathl := 128\<rparr>" "''/''"]
        dir_curpath_leave_edge_cases[of
          "tracker_init\<lparr>dir_curpath := Some ''tmp'', curpathl := 128\<rparr>" "''tmp''"]
  by simp

lemma c_str_no_terminator: "NUL \<notin> set xs \<Longrightarrow> c_str xs = xs"
  unfolding c_str_def by (induction xs) auto

text \<open>
  The string of the block that \<^verbatim>\<open>dir_seterr\<close> stores is the string of the first 1022
  characters of the expansion, whatever was stored before.
\<close>

lemma dir_seterr_stores:
  "\<exists>b. dir_fatalerr (dir_seterr expand junk (Some f) va tr) = Some b
       \<and> c_str b = c_str (take 1022 (expand f va))"
proof -
  obtain rest where "(vsnprintf (malloc 1024 junk) 1023 (expand f va))[1023 := NUL]
      = take 1022 (expand f va) @ NUL # rest"
    using fatal_block_shape by blast
  then have "c_str ((vsnprintf (malloc 1024 junk) 1023 (expand f va))[1023 := NUL])
      = c_str (take 1022 (expand f va))"
    by (simp only: c_str_behind_terminator)
  then show ?thesis
    by (simp add: dir_seterr_Some)
qed

text \<open>
  Claim C8: \<open>set_fatal\<close> discards what was stored before it stores the new message,
  \<open>set_fatal(None)\<close> clears the fatal error, and with no fatal error the scanning
  draw is the progress box, not the error box. A second call gives the state the
  second call alone gives, and the old message has no part in the result. A call
  with a format stores the block printed from that format: the string of the first
  1022 characters of its expansion, which is the expansion itself when that has at
  most 1022 characters and no terminator inside; this is also what is stored after
  any earlier call, and what the error box then shows.
\<close>

theorem dir_seterr_replaces_and_clears:
  "dir_seterr expand2 junk2 fmt2 va2 (dir_seterr expand1 junk1 fmt1 va1 tr)
     = dir_seterr expand2 junk2 fmt2 va2 tr
   \<and> dir_seterr expand junk fmt va (tr\<lparr>dir_fatalerr := old\<rparr>) = dir_seterr expand junk fmt va tr
   \<and> dir_fatalerr (dir_seterr expand junk None va tr) = None
   \<and> dir_draw (dir_seterr expand junk None va tr)
       = [DrawBrowse, DrawProgress (dir_curpath tr) (lasterr tr)]
   \<and> dir_draw (tr\<lparr>dir_fatalerr := None\<rparr>)
       = [DrawBrowse, DrawProgress (dir_curpath tr) (lasterr tr)]
   \<and> dir_seterr expand junk (Some f) va tr
       = tr\<lparr>dir_fatalerr := Some ((vsnprintf (malloc 1024 junk) 1023 (expand f va))[1023 := NUL])\<rparr>
   \<and> (\<exists>b. dir_fatalerr (dir_seterr expand junk (Some f) va tr) = Some b
          \<and> c_str b = c_str (take 1022 (expand f va))
          \<and> (length (expand f va) \<le> 1022 \<and> NUL \<notin> set (expand f va)
               \<longrightarrow> c_str b = expand f va))
   \<and> (\<exists>b. dir_fatalerr (dir_seterr expand2 junk2 (Some f2) va2
                          (dir_seterr expand1 junk1 fmt1 va1 tr)) = Some b
          \<and> c_str b = c_str (take 1022 (expand2 f2 va2)))
   \<and> dir_draw (dir_seterr expand junk (Some f) va tr)
       = [DrawBrowse, DrawError (dir_curpath tr) (c_str (take 1022 (expand f va)))]"
proof -
  have twice: "dir_seterr expand2 junk2 fmt2 va2 (dir_seterr expand1 junk1 fmt1 va1 tr)
     = dir_seterr expand2 junk2 fmt2 va2 tr"
    for fmt2
    by (simp add: dir_seterr_def Let_def split: option.splits)
  have old: "dir_seterr expand junk fmt va (tr\<lparr>dir_fatalerr := old\<rparr>)
      = dir_seterr expand junk fmt va tr"
    by (simp add: dir_seterr_def Let_def split: option.splits)
  have clear: "dir_fatalerr (dir_seterr expand junk None va tr) = None"
      "dir_draw (dir_seterr expand junk None va tr)
         = [DrawBrowse, DrawProgress (dir_curpath tr) (lasterr tr)]"
      "dir_draw (tr\<lparr>dir_fatalerr := None\<rparr>)
         = [DrawBrowse, DrawProgress (dir_curpath tr) (lasterr tr)]"
    by (simp_all add: dir_seterr_def dir_draw_def Let_def)
  have block: "dir_seterr expand junk (Some f) va tr
       = tr\<lparr>dir_fatalerr := Some ((vsnprintf (malloc 1024 junk) 1023 (expand f va))[1023 := NUL])\<rparr>"
    by (simp add: dir_seterr_def Let_def)
  obtain b where b: "dir_fatalerr (dir_seterr expand junk (Some f) va tr) = Some b"
      "c_str b = c_str (take 1022 (expand f va))"
    using dir_seterr_stores by blast
  have fits: "length (expand f va) \<le> 1022 \<and> NUL \<notin> set (expand f va)
               \<longrightarrow> c_str b = expand f va"
    using b(2) by (simp add: c_str_no_terminator)
  have stored: "\<exists>b. dir_fatalerr (dir_seterr expand junk (Some f) va tr) = Some b
          \<and> c_str b = c_str (take 1022 (expand f va))
          \<and> (length (expand f va) \<le> 1022 \<and> NUL \<notin> set (expand f va)
               \<longrightarrow> c_str b = expand f va)"
    using b fits by blast
  have second: "\<exists>b. dir_fatalerr (dir_seterr expand2 junk2 (Some f2) va2
                          (dir_seterr expand1 junk1 fmt1 va1 tr)) = Some b
          \<and> c_str b = c_str (take 1022 (expand2 f2 va2))"
    unfolding twice by (rule dir_seterr_stores)
  have box: "dir_draw (dir_seterr expand junk (Some f) va tr)
       = [DrawBrowse, DrawError (dir_curpath tr) (c_str (take 1022 (expand f va)))]"
    using b by (simp add: dir_draw_def dir_seterr_def Let_def)
  from twice old clear block stored second box show ?thesis
    by (intro conjI)
qed

theorem dir_seterr_replaces_and_clears_witness:
  "\<exists>b. dir_fatalerr (dir_seterr (\<lambda>f va. ''lost root'') (\<lambda>i. CHR ''j'') (Some ''%s'') [()]
              (dir_seterr (\<lambda>f va. ''first'') (\<lambda>i. CHR ''k'') (Some ''%s'') [()] tracker_init))
          = Some b
       \<and> c_str b = ''lost root''"
proof -
  have short: "length ''lost root'' \<le> 1022 \<and> NUL \<notin> set ''lost root''"
    by (simp add: NUL_def)
  have twice: "dir_seterr (\<lambda>f va. ''lost root'') (\<lambda>i. CHR ''j'') (Some ''%s'') [()]
              (dir_seterr (\<lambda>f va. ''first'') (\<lambda>i. CHR ''k'') (Some ''%s'') [()] tracker_init)
      = dir_seterr (\<lambda>f va. ''lost root'') (\<lambda>i. CHR ''j'') (Some ''%s'') [()] tracker_init"
    using dir_seterr_replaces_and_clears[of "\<lambda>f va. ''lost root''" "\<lambda>i. CHR ''j''" "Some ''%s''"
            "[()]" "\<lambda>f va. ''first''" "\<lambda>i. CHR ''k''" "Some ''%s''" "[()]" tracker_init]
    by blast
  from dir_seterr_replaces_and_clears[of "\<lambda>f va. ''lost root''" "\<lambda>i. CHR ''j''" "Some ''%s''"
            "[()]" "\<lambda>f va. ''first''" "\<lambda>i. CHR ''k''" "Some ''%s''" "[()]" tracker_init
            "\<lambda>f va. ''lost root''" "\<lambda>i. CHR ''j''" "Some ''%s''" "[()]" None "''%s''"]
  have "\<exists>b. dir_fatalerr (dir_seterr (\<lambda>f va. ''lost root'') (\<lambda>i. CHR ''j'') (Some ''%s'') [()]
              tracker_init) = Some b
          \<and> (length ''lost root'' \<le> 1022 \<and> NUL \<notin> set ''lost root''
               \<longrightarrow> c_str b = ''lost root'')"
    by blast
  with short twice show ?thesis
    by auto
qed

text \<open>
  Claim C10: a call of \<^verbatim>\<open>dir_seterr\<close> with a format stores a message of at most 1023
  characters that is terminated inside its block of 1024 bytes, and an expansion of
  more than 1023 characters is not stored in full. The stored string is the string of
  the first 1022 characters of the expansion.
\<close>

theorem dir_seterr_message_bounded:
  "\<exists>b. dir_fatalerr (dir_seterr expand junk (Some f) va tr) = Some b
       \<and> length b = 1024
       \<and> b ! 1023 = NUL
       \<and> length (c_str b) < length b \<and> b ! length (c_str b) = NUL
       \<and> length (c_str b) \<le> 1023
       \<and> c_str b = c_str (take 1022 (expand f va))
       \<and> (1023 < length (expand f va) \<longrightarrow> c_str b \<noteq> expand f va)"
proof -
  let ?out = "expand f va"
  let ?b = "(vsnprintf (malloc 1024 junk) 1023 ?out)[1023 := NUL]"
  obtain rest where shape: "?b = take 1022 ?out @ NUL # rest"
    and len: "length rest + length (take 1022 ?out) = 1023"
    using fatal_block_shape by blast
  have stored: "dir_fatalerr (dir_seterr expand junk (Some f) va tr) = Some ?b"
    by (rule dir_seterr_Some)
  have l: "length ?b = 1024"
    using len by (simp add: shape del: length_take)
  have last_byte: "?b ! 1023 = NUL"
    using l by simp
  have cs: "c_str ?b = c_str (take 1022 ?out)"
    by (simp only: shape c_str_behind_terminator)
  have "NUL \<in> set ?b"
    by (simp only: shape) simp
  then have terminated: "length (c_str ?b) < length ?b \<and> ?b ! length (c_str ?b) = NUL"
    by (rule c_str_terminated)
  have bound: "length (c_str ?b) \<le> 1022"
    using length_c_str_le[of "take 1022 ?out"] by (simp add: cs)
  then have trunc: "1023 < length ?out \<longrightarrow> c_str ?b \<noteq> ?out"
    by auto
  from stored l last_byte terminated bound cs trunc show ?thesis
    by (intro exI[of _ ?b]) simp
qed

theorem dir_seterr_message_bounded_witness:
  "\<exists>b. dir_fatalerr (dir_seterr (\<lambda>f va. replicate 2000 CHR ''x'') (\<lambda>i. CHR ''j'')
              (Some ''%s'') [()] tracker_init) = Some b
       \<and> length (c_str b) \<le> 1023
       \<and> c_str b \<noteq> replicate 2000 CHR ''x''"
  using dir_seterr_message_bounded[of "\<lambda>f va. replicate 2000 CHR ''x''" "\<lambda>i. CHR ''j''"
          "''%s''" "[()]" tracker_init]
  by auto

text \<open>The bound of the code itself is 1022: the size given to \<^verbatim>\<open>vsnprintf\<close> is 1023.\<close>

lemma dir_seterr_message_at_most_1022:
  "dir_fatalerr (dir_seterr expand junk (Some f) va tr) = Some b \<Longrightarrow> length (c_str b) \<le> 1022"
proof -
  assume a: "dir_fatalerr (dir_seterr expand junk (Some f) va tr) = Some b"
  obtain rest where "(vsnprintf (malloc 1024 junk) 1023 (expand f va))[1023 := NUL]
      = take 1022 (expand f va) @ NUL # rest"
    using fatal_block_shape by blast
  with a have "b = take 1022 (expand f va) @ NUL # rest"
    by (simp add: dir_seterr_Some)
  then have "c_str b = c_str (take 1022 (expand f va))"
    by (simp only: c_str_behind_terminator)
  then show ?thesis
    using length_c_str_le[of "take 1022 (expand f va)"] by simp
qed

section \<open>Properties of the scheduler\<close>

lemma draw_if_due_ncurses_init:
  "draw_if_due tr conf ps wait tv s = Inr s1 \<Longrightarrow> ncurses_init s1 = ncurses_init s"
  by (auto simp: draw_if_due_def screen_draw_def Let_def split: if_splits)

text \<open>
  Claim C3 says that before the terminal is initialised a tick skips the input and
  returns the keep-going signal for the throttled and for the blocking policy. For the
  blocking policy (\<open>wait = 0\<close>) line 86 returns 1, the terminate signal: here with the
  key \<open>q\<close> waiting, which stays unread.
\<close>

theorem input_handle_blocking_before_init_terminates:
  "input_handle kh_example tracker_init config_init ST_BROWSE 0 \<lparr>tv_sec = 0, tv_usec = 0\<rparr>
       [Key 113] E_NONE sched_init
     = Inr (1, [Key 113], screen_draw ST_BROWSE tracker_init sched_init)"
  by (simp add: input_handle_def draw_if_due_def screen_draw_def sched_init_def)

text \<open>
  Claim C3 as the code has it: before the terminal is initialised a tick draws as its
  policy says, reads no input, and returns 0 (keep going) for the throttled and the
  always-draw policy and 1 (terminate) for the blocking policy. For the throttled
  policy the refresh interval is not 0: line 77 divides by it.
\<close>

theorem input_handle_before_init:
  assumes "ncurses_init s = 0"
    and "wait = 1 \<longrightarrow> update_delay conf \<noteq> 0"
  shows "\<exists>s'. input_handle kh tr conf ps wait tv evs err s
                = Inr (if wait = 0 then 1 else 0, evs, s')
           \<and> draw_if_due tr conf ps wait tv s = Inr s'"
proof -
  from assms(2) have "\<exists>s1. draw_if_due tr conf ps wait tv s = Inr s1"
    by (cases "wait = 1") (simp_all add: draw_if_due_def Let_def)
  then obtain s1 where d: "draw_if_due tr conf ps wait tv s = Inr s1" ..
  then have "ncurses_init s1 = 0"
    using assms(1) draw_if_due_ncurses_init by metis
  with d show ?thesis
    by (simp add: input_handle_def)
qed

theorem input_handle_before_init_witness:
  "(\<exists>s'. input_handle kh_example tracker_init config_init ST_CALC 1 \<lparr>tv_sec = 5, tv_usec = 0\<rparr>
            [Key 113] E_NONE sched_init = Inr (0, [Key 113], s'))
   \<and> (\<exists>s'. input_handle kh_example tracker_init config_init ST_CALC 0 \<lparr>tv_sec = 5, tv_usec = 0\<rparr>
            [Key 113] E_NONE sched_init = Inr (1, [Key 113], s'))"
proof -
  have n: "ncurses_init sched_init = 0"
    by (simp add: sched_init_def)
  have u: "(1::int) = 1 \<longrightarrow> update_delay config_init \<noteq> 0"
    by (simp add: config_init_def)
  have z: "(0::int) = 1 \<longrightarrow> update_delay config_init \<noteq> 0"
    by simp
  from input_handle_before_init[OF n u, of kh_example tracker_init ST_CALC
          "\<lparr>tv_sec = 5, tv_usec = 0\<rparr>" "[Key 113]" E_NONE]
       input_handle_before_init[OF n z, of kh_example tracker_init ST_CALC
          "\<lparr>tv_sec = 5, tv_usec = 0\<rparr>" "[Key 113]" E_NONE]
  show ?thesis by auto
qed

lemma getch_loop_quiet:
  "reads_quietly ps evs \<Longrightarrow> getch_loop kh tr ps wait evs s = (fst (getch_loop kh tr ps wait evs s), tl evs, s)"
  by (cases "(ps, evs)" rule: reads_quietly.cases; cases ps) auto

lemma getch_loop_redraws_mono:
  "length (redraws s) \<le> length (redraws (snd (snd (getch_loop kh tr ps wait evs s))))"
proof (induction kh tr ps wait evs s rule: getch_loop.induct)
  case (1 kh tr ps wait s)
  show ?case by simp
next
  case (2 kh tr ps wait rc evs s)
  let ?s1 = "screen_draw ps tr
          ((if rc \<noteq> 0 then s\<lparr>min_rows := 0, min_cols := 0\<rparr> else s)
             \<lparr>nodelay_mode := (wait \<noteq> 0)\<rparr>)"
  have "length (redraws s) \<le> length (redraws ?s1)"
    by (simp add: screen_draw_def)
  also have "\<dots> \<le> length (redraws (snd (snd (getch_loop kh tr ps wait evs ?s1))))"
    by (rule "2.IH")
  finally show ?case by simp
next
  case (3 kh tr ps wait ch evs s)
  show ?case
  proof (cases ps)
    case ST_SHELL
    have "length (redraws s) \<le> length (redraws (screen_draw ps tr s))"
      by (simp add: screen_draw_def)
    also have "\<dots> \<le> length (redraws (snd (snd (getch_loop kh tr ps wait evs
                                                     (screen_draw ps tr s)))))"
      by (rule "3.IH"[OF ST_SHELL])
    finally show ?thesis using ST_SHELL by simp
  qed simp_all
qed

text \<open>
  A loop that reads a resize notification or a key of the shell state draws for it.
\<close>

lemma getch_loop_loud:
  "\<not> reads_quietly ps evs \<Longrightarrow>
     length (redraws s) < length (redraws (snd (snd (getch_loop kh tr ps wait evs s))))"
proof (cases "(ps, evs)" rule: reads_quietly.cases)
  case (1 ps')
  assume "\<not> reads_quietly ps evs"
  with 1 show ?thesis by simp
next
  case (2 ps' rc evs')
  let ?s1 = "screen_draw ps tr
          ((if rc \<noteq> 0 then s\<lparr>min_rows := 0, min_cols := 0\<rparr> else s)
             \<lparr>nodelay_mode := (wait \<noteq> 0)\<rparr>)"
  have "length (redraws s) < length (redraws ?s1)"
    by (simp add: screen_draw_def)
  with getch_loop_redraws_mono[of ?s1 kh tr ps wait evs'] 2 show ?thesis
    by simp
next
  case (3 ps' ch evs')
  assume "\<not> reads_quietly ps evs"
  with 3 have sh: "ps = ST_SHELL" by simp
  have "length (redraws s) < length (redraws (screen_draw ps tr s))"
    by (simp add: screen_draw_def)
  with getch_loop_redraws_mono[of "screen_draw ps tr s" kh tr ps wait evs'] 3 sh show ?thesis
    by simp
qed

text \<open>
  One throttled tick that reads no resize notification and no key of the shell state
  (or is run before the terminal is initialised, when it reads nothing): it returns,
  it draws exactly when the bucket of its instant differs from the recorded one, and
  it records its bucket.
\<close>

lemma input_handle_throttled:
  assumes "update_delay conf \<noteq> 0"
    and "ncurses_init s = 0 \<or> reads_quietly ps evs"
  shows "\<exists>r rest s'. input_handle kh tr conf ps 1 tv evs err s = Inr (r, rest, s')
           \<and> redraws s' = redraws s @
                (if lastupdate s \<noteq> bucket (update_delay conf) tv then [screen ps tr] else [])
           \<and> lastupdate s' = bucket (update_delay conf) tv
           \<and> ncurses_init s' = ncurses_init s"
proof -
  let ?b = "bucket (update_delay conf) tv"
  let ?s1 = "if lastupdate s \<noteq> ?b then (screen_draw ps tr s)\<lparr>lastupdate := ?b\<rparr> else s"
  have d: "draw_if_due tr conf ps 1 tv s = Inr ?s1"
    using assms(1) by (simp add: draw_if_due_def Let_def)
  have s1: "redraws ?s1 = redraws s @ (if lastupdate s \<noteq> ?b then [screen ps tr] else [])"
      "lastupdate ?s1 = ?b" "ncurses_init ?s1 = ncurses_init s"
    by (simp_all add: screen_draw_def)
  show ?thesis
  proof (cases "ncurses_init s = 0")
    case True
    with d s1 show ?thesis by (simp add: input_handle_def)
  next
    case False
    with assms(2) have q: "reads_quietly ps evs" by simp
    let ?s2 = "?s1\<lparr>nodelay_mode := True\<rparr>"
    obtain r where g: "getch_loop kh tr ps 1 evs ?s2 = (r, tl evs, ?s2)"
      using getch_loop_quiet[OF q, of kh tr 1 ?s2] by blast
    with d s1 False show ?thesis
      by (cases r) (simp_all add: input_handle_def)
  qed
qed

text \<open>
  The condition is the weakest one: a throttled tick on an initialised terminal that
  does read a resize notification or a key of the shell state draws, also in the
  bucket that is already recorded.
\<close>

lemma input_handle_throttled_loud:
  assumes "update_delay conf \<noteq> 0"
    and "ncurses_init s \<noteq> 0"
    and "\<not> reads_quietly ps evs"
  shows "\<exists>r rest s'. input_handle kh tr conf ps 1 tv evs err s = Inr (r, rest, s')
           \<and> length (redraws s) < length (redraws s')"
proof -
  let ?b = "bucket (update_delay conf) tv"
  let ?s1 = "if lastupdate s \<noteq> ?b then (screen_draw ps tr s)\<lparr>lastupdate := ?b\<rparr> else s"
  let ?s2 = "?s1\<lparr>nodelay_mode := True\<rparr>"
  have d: "draw_if_due tr conf ps 1 tv s = Inr ?s1"
    using assms(1) by (simp add: draw_if_due_def Let_def)
  have n: "ncurses_init ?s1 \<noteq> 0"
    using assms(2) by (simp add: screen_draw_def)
  have "length (redraws s) \<le> length (redraws ?s2)"
    by (simp add: screen_draw_def)
  also have "\<dots> < length (redraws (snd (snd (getch_loop kh tr ps 1 evs ?s2))))"
    using assms(3) by (rule getch_loop_loud)
  finally have more: "length (redraws s) < length (redraws (snd (snd (getch_loop kh tr ps 1 evs ?s2))))" .
  obtain r rest s3 where g: "getch_loop kh tr ps 1 evs ?s2 = (r, rest, s3)"
    by (metis prod_cases3)
  with more have "length (redraws s) < length (redraws s3)" by simp
  with d n g show ?thesis
    by (cases r) (simp_all add: input_handle_def)
qed

lemma bucket_examples:
  "bucket 100 \<lparr>tv_sec = 7, tv_usec = 0\<rparr> = 70"
  "bucket 100 \<lparr>tv_sec = 7, tv_usec = 50000\<rparr> = 70"
  "bucket 100 \<lparr>tv_sec = 7, tv_usec = 99999\<rparr> = 70"
  by (simp_all add: bucket_def signed_divide_int_def signed_modulo_int_def)

text \<open>
  Claim C4 says that of any run of throttled ticks whose instants fall in the same
  bucket at most one draws, and that a draw happens only when the bucket differs from
  the recorded one. Two ticks 50 ms apart, in the same bucket 70, both draw when the
  second one reads a resize notification (line 96 draws whatever the bucket), and
  also when it reads a key in the shell state (line 106).
\<close>

theorem throttled_ticks_resize_redraws:
  "throttled_ticks kh_example
       [tick_example ST_CALC 7 0 [], tick_example ST_CALC 7 50000 [KeyResize 0]]
       (sched_init\<lparr>ncurses_init := 1\<rparr>)
     = Inr (sched_init\<lparr>ncurses_init := 1, lastupdate := 70, nodelay_mode := True,
              redraws := [screen ST_CALC tracker_init, screen ST_CALC tracker_init]\<rparr>)
   \<and> throttled_ticks kh_example
       [tick_example ST_SHELL 7 0 [], tick_example ST_SHELL 7 50000 [Key 113]]
       (sched_init\<lparr>ncurses_init := 1\<rparr>)
     = Inr (sched_init\<lparr>ncurses_init := 1, lastupdate := 70, nodelay_mode := True,
              redraws := [screen ST_SHELL tracker_init, screen ST_SHELL tracker_init]\<rparr>)
   \<and> bucket (update_delay config_init) \<lparr>tv_sec = 7, tv_usec = 0\<rparr>
     = bucket (update_delay config_init) \<lparr>tv_sec = 7, tv_usec = 50000\<rparr>"
  by (simp add: tick_example_def input_handle_def draw_if_due_def screen_draw_def
        sched_init_def config_init_def bucket_examples Let_def)

text \<open>
  Claim C4 as the code has it: of any run of throttled ticks whose instants fall in
  the same bucket \<open>b\<close> (the milliseconds within the cycle of 1000 seconds divided by
  \<open>update_delay\<close>, which is not 0) and of which none reads a resize notification or a
  key of the shell state, at most one draws: the run returns, only its first tick can
  draw, and it draws exactly when \<open>b\<close> differs from the bucket recorded by the
  throttled tick before it; every tick records its bucket. A tick reads nothing when
  the terminal is not initialised; otherwise what it reads is told by
  \<open>reads_quietly\<close>.
\<close>

theorem throttled_ticks_one_redraw:
  assumes "\<forall>t\<in>set ts. update_delay (t_config t) \<noteq> 0
                     \<and> bucket (update_delay (t_config t)) (t_time t) = b"
    and "\<forall>t\<in>set ts. ncurses_init s = 0 \<or> reads_quietly (t_pstate t) (t_events t)"
  shows "\<exists>s'. throttled_ticks kh ts s = Inr s'
           \<and> redraws s' = redraws s @
                (if ts \<noteq> [] \<and> lastupdate s \<noteq> b
                 then [screen (t_pstate (hd ts)) (t_tracker (hd ts))] else [])
           \<and> length (redraws s') \<le> length (redraws s) + 1
           \<and> (ts \<noteq> [] \<longrightarrow> lastupdate s' = b)"
  using assms
proof (induction ts arbitrary: s)
  case Nil
  then show ?case by simp
next
  case (Cons t ts)
  from Cons.prems have t: "update_delay (t_config t) \<noteq> 0"
      "bucket (update_delay (t_config t)) (t_time t) = b"
    and q: "ncurses_init s = 0 \<or> reads_quietly (t_pstate t) (t_events t)"
    by auto
  from input_handle_throttled[OF t(1) q, of kh "t_tracker t" "t_time t" "t_errno t"]
  obtain r rest s1 where
    ih: "input_handle kh (t_tracker t) (t_config t) (t_pstate t) 1 (t_time t) (t_events t)
           (t_errno t) s = Inr (r, rest, s1)"
    and r1: "redraws s1 = redraws s @
               (if lastupdate s \<noteq> b then [screen (t_pstate t) (t_tracker t)] else [])"
    and l1: "lastupdate s1 = b"
    and n1: "ncurses_init s1 = ncurses_init s"
    using t(2) by auto
  from Cons.prems n1 have p1: "\<forall>t\<in>set ts. update_delay (t_config t) \<noteq> 0
                     \<and> bucket (update_delay (t_config t)) (t_time t) = b"
    and p2: "\<forall>t\<in>set ts. ncurses_init s1 = 0 \<or> reads_quietly (t_pstate t) (t_events t)"
    by auto
  from Cons.IH[OF p1 p2] obtain s' where
    rest: "throttled_ticks kh ts s1 = Inr s'"
    and r2: "redraws s' = redraws s1 @
               (if ts \<noteq> [] \<and> lastupdate s1 \<noteq> b
                then [screen (t_pstate (hd ts)) (t_tracker (hd ts))] else [])"
    and l2: "ts \<noteq> [] \<longrightarrow> lastupdate s' = b"
    by blast
  have l3: "lastupdate s' = b"
    using l2 l1 rest by (cases ts) auto
  from ih rest r1 r2 l1 l3 show ?case by simp
qed

theorem throttled_ticks_one_redraw_witness:
  "\<exists>s'. throttled_ticks kh_example
            [tick_example ST_CALC 7 0 [], tick_example ST_CALC 7 50000 [Key 113, KeyResize 0],
             tick_example ST_SHELL 7 99999 []]
            (sched_init\<lparr>ncurses_init := 1\<rparr>) = Inr s'
        \<and> redraws s' = [screen ST_CALC tracker_init]
        \<and> lastupdate s' = 70"
proof -
  let ?ts = "[tick_example ST_CALC 7 0 [], tick_example ST_CALC 7 50000 [Key 113, KeyResize 0],
              tick_example ST_SHELL 7 99999 []]"
  let ?s = "sched_init\<lparr>ncurses_init := 1\<rparr>"
  have same: "\<forall>t\<in>set ?ts. update_delay (t_config t) \<noteq> 0
                     \<and> bucket (update_delay (t_config t)) (t_time t) = 70"
    by (simp add: tick_example_def config_init_def bucket_examples)
  have quiet: "\<forall>t\<in>set ?ts. ncurses_init ?s = 0 \<or> reads_quietly (t_pstate t) (t_events t)"
    by (simp add: tick_example_def)
  from throttled_ticks_one_redraw[OF same quiet, of kh_example]
  show ?thesis
    by (auto simp: sched_init_def tick_example_def)
qed

section \<open>Properties of the argument parser\<close>

text \<open>
  Claim C5 says that \<open>--exclude-from FILE\<close> is the exclude-from-file option, the same as
  \<open>-X FILE\<close>, and that an unknown option is a fatal error. Line 204 compares with
  \<open>--exclude-form\<close>, so \<open>--exclude-from\<close> is itself reported as an unknown option, for
  every environment and whatever the settings were.
\<close>

theorem exclude_from_is_unknown:
  "argv_parse env [''ncdu'', ''--exclude-from'', ''FILE''] c
     = Inl (Die (''Unknown option '' @ quoted ''--exclude-from'' @ ''.\<newline>''))"
  by (simp add: argv_parse_def argparser_init_def argparser_next.simps argv_loop.simps
        argparser_pop_def argparser_shortopt_def arg_option_def OPT_def printed_def Let_def)

text \<open>The short form of the same option is read, and its file is added to the rules.\<close>

lemma exclude_X_is_read:
  "exclude_addfile env ''FILE'' = None \<Longrightarrow>
   argv_parse env [''ncdu'', ''-X'', ''FILE''] config_init
     = Inr \<lparr>settings = config_init\<lparr>uic_theme := (if no_color env then 0 else 2), dir_ui := 2,
                si := 0, excludes := [ExcludeFile ''FILE'']\<rparr>,
            output_to = MemInit, input_from = ScanInit ''.'', ncurses_tty = 0\<rparr>"
  by (simp add: argv_parse_def argparser_init_def argparser_next.simps argv_loop.simps
        argparser_pop_def argparser_shortopt_def argparser_arg_def arg_option_def OPT_def
        printed_def Let_def config_init_def)

text \<open>The help text of the program names the long form \<open>--exclude-from\<close>.\<close>

lemma arg_help_names_exclude_from:
  "\<exists>before after. arg_help env =
      before @ ''  -X, --exclude-from FILE    Exclude files that match any pattern in FILE\<newline>''
        @ after"
  unfolding arg_help_def
  by (rule exI[of _ "''ncdu <options> <directory>\<newline>\<newline>'' @
     ''  -h,--help                  This help message\<newline>'' @
     ''  -q                         Quiet mode, refresh interval 2 seconds\<newline>'' @
     ''  -v,-V,--version            Print version\<newline>'' @
     ''  -x                         Same filesystem\<newline>'' @
     ''  -e                         Enable extended information\<newline>'' @
     ''  -r                         Read only\<newline>'' @
     ''  -o FILE                    Export scanned directory to FILE\<newline>'' @
     ''  -f FILE                    Import scanned directory from FILE\<newline>'' @
     ''  -0,-1,-2                   UI to use when scanning (0=none,2=full ncurses)\<newline>'' @
     ''  --si                       Use base 10 (SI) prefixes instead of base 2\<newline>'' @
     ''  --exclude PATTERN          Exclude files that match PATTERN\<newline>''"],
      rule exI[of _ "''  -L, --follow-symlinks      Follow symbolic links (excluding directories)\<newline>'' @
     ''  --exclude-caches           Exclude directories containing CACHEDIR.TAG\<newline>'' @
     (if have_kernfs env
      then ''  --exclude-kernfs           Exclude Linux pseudo filesystems (procfs,sysfs,cgroup,...)\<newline>''
      else []) @
     (if have_firmlinks env
      then ''  --exclude-firmlinks        Exclude firmlinks on macOS\<newline>''
      else []) @
     ''  --confirm-quit             Confirm quitting ncdu\<newline>'' @
     ''  --color SCHEME             Set color scheme (off/dark/dark-bg)\<newline>''"])
     (simp only: append_assoc)

text \<open>
  An option that is none of these ends the parse with the message of line 276, before
  the loop reads anything more and before any backend is initialised.
\<close>

lemma unknown_option_dies:
  assumes "argparser_next (parser st) = Inr (1, p)"
    and "last' p = Some tok"
    and "tok \<notin> set known_options"
  shows "argv_loop env st = Inl (Die (''Unknown option '' @ quoted tok @ ''.\<newline>''))"
proof -
  have "arg_option env (cfg st) p = Inr (0, cfg st, p)"
    using assms(2,3) by (simp add: arg_option_def OPT_def known_options_def)
  moreover have "\<not> (OPT p ''-v'' \<or> OPT p ''-V'' \<or> OPT p ''--version'')"
      "\<not> (OPT p ''-h'' \<or> OPT p ''-?'' \<or> OPT p ''--help'')" "\<not> OPT p ''-o''" "\<not> OPT p ''-f''"
    using assms(2,3) by (auto simp: OPT_def known_options_def)
  ultimately show ?thesis
    using assms(1,2) by (subst argv_loop.simps) (simp add: printed_def)
qed

lemma unknown_option_dies_example:
  "argv_loop env_example \<lparr>parser = argparser_init [''--bogus''], cfg = config_init,
                   export = None, import = None, dir = None\<rparr>
     = Inl (Die (''Unknown option '' @ quoted ''--bogus'' @ ''.\<newline>''))"
proof -
  have "argparser_next (argparser_init [''--bogus''])
          = Inr (1, (argparser_init [])\<lparr>last' := Some ''--bogus''\<rparr>)"
    by (simp add: argparser_init_def argparser_next.simps argparser_pop_def Let_def)
  then show ?thesis
    using unknown_option_dies[of "\<lparr>parser = argparser_init [''--bogus''], cfg = config_init,
                   export = None, import = None, dir = None\<rparr>"
            "(argparser_init [])\<lparr>last' := Some ''--bogus''\<rparr>" "''--bogus''" env_example]
    by (simp add: known_options_def argparser_init_def)
qed

text \<open>
  Two more parses the spec lists: a pattern option with its value and a positional
  argument, and a run of three short options in one token.
\<close>

lemma parse_exclude_example:
  "argv_parse env [''ncdu'', ''--exclude'', ''*.tmp'', ''/home''] config_init
     = Inr \<lparr>settings = config_init\<lparr>uic_theme := (if no_color env then 0 else 2), dir_ui := 2,
                si := 0, excludes := [ExcludePattern ''*.tmp'']\<rparr>,
            output_to = MemInit, input_from = ScanInit ''/home'', ncurses_tty = 0\<rparr>"
  by (simp add: argv_parse_def argparser_init_def argparser_next.simps argv_loop.simps
        argparser_pop_def argparser_shortopt_def argparser_arg_def arg_option_def OPT_def
        printed_def Let_def config_init_def)

lemma parse_short_run_example:
  "argv_parse env [''ncdu'', ''-rLx''] config_init
     = Inr \<lparr>settings = config_init\<lparr>uic_theme := (if no_color env then 0 else 2), dir_ui := 2,
                si := 0, read_only := 1, follow_symlinks := 1, dir_scan_smfs := 1\<rparr>,
            output_to = MemInit, input_from = ScanInit ''.'', ncurses_tty = 0\<rparr>"
  by (simp add: argv_parse_def argparser_init_def argparser_next.simps argv_loop.simps
        argparser_pop_def argparser_shortopt_def argparser_arg_def arg_option_def OPT_def
        printed_def Let_def config_init_def)

text \<open>
  Claim C6: parsing the raw arguments \<open>-x -q -- -weird\<close> enables the one-file-system
  setting, sets the refresh interval to 2000 ms, and gives exactly one positional
  argument, \<open>-weird\<close>, with no error; the separator is never returned. The first
  conjunct is the whole of \<^verbatim>\<open>argv_parse\<close> on the arguments behind a program name. The
  next four are the calls of \<^verbatim>\<open>argparser_next\<close> on the raw arguments, one after the
  other: two options, one positional argument (returned by the call that consumes the
  separator), and the end. The last two are what \<^verbatim>\<open>arg_option\<close> does with the two
  options, whatever the settings were.
\<close>

theorem parse_separator_example:
  "argv_parse env [''ncdu'', ''-x'', ''-q'', ''--'', ''-weird''] config_init
     = Inr \<lparr>settings = config_init\<lparr>uic_theme := (if no_color env then 0 else 2), dir_ui := 2,
                si := 0, dir_scan_smfs := 1, update_delay := 2000\<rparr>,
            output_to = MemInit, input_from = ScanInit ''-weird'', ncurses_tty = 0\<rparr>
   \<and> argparser_next (argparser_init [''-x'', ''-q'', ''--'', ''-weird''])
     = Inr (1, \<lparr>argv = [''-q'', ''--'', ''-weird''], shortopt = None,
                 last' = Some ''-x'', last_arg = None, argsep = False\<rparr>)
   \<and> argparser_next \<lparr>argv = [''-q'', ''--'', ''-weird''], shortopt = None,
                 last' = Some ''-x'', last_arg = None, argsep = False\<rparr>
     = Inr (1, \<lparr>argv = [''--'', ''-weird''], shortopt = None,
                 last' = Some ''-q'', last_arg = None, argsep = False\<rparr>)
   \<and> argparser_next \<lparr>argv = [''--'', ''-weird''], shortopt = None,
                 last' = Some ''-q'', last_arg = None, argsep = False\<rparr>
     = Inr (2, \<lparr>argv = [], shortopt = None,
                 last' = Some ''-weird'', last_arg = None, argsep = True\<rparr>)
   \<and> argparser_next \<lparr>argv = [], shortopt = None,
                 last' = Some ''-weird'', last_arg = None, argsep = True\<rparr>
     = Inr (0, \<lparr>argv = [], shortopt = None,
                 last' = None, last_arg = None, argsep = True\<rparr>)
   \<and> arg_option env c \<lparr>argv = [''-q'', ''--'', ''-weird''], shortopt = None,
                 last' = Some ''-x'', last_arg = None, argsep = False\<rparr>
     = Inr (1, c\<lparr>dir_scan_smfs := 1\<rparr>,
            \<lparr>argv = [''-q'', ''--'', ''-weird''], shortopt = None,
                 last' = Some ''-x'', last_arg = None, argsep = False\<rparr>)
   \<and> arg_option env c \<lparr>argv = [''--'', ''-weird''], shortopt = None,
                 last' = Some ''-q'', last_arg = None, argsep = False\<rparr>
     = Inr (1, c\<lparr>update_delay := 2000\<rparr>,
            \<lparr>argv = [''--'', ''-weird''], shortopt = None,
                 last' = Some ''-q'', last_arg = None, argsep = False\<rparr>)"
  by (simp add: argv_parse_def argparser_init_def argparser_next.simps argv_loop.simps
        argparser_pop_def argparser_shortopt_def arg_option_def OPT_def printed_def Let_def
        config_init_def)

text \<open>
  Claim C7: when a parse step returns an option with an attached value (the text
  behind the \<open>=\<close> of a long option, in \<^verbatim>\<open>last_arg\<close>) and the value is not retrieved,
  the next parse step fails with the message that the option, by its name, does not
  expect an argument.
\<close>

theorem unretrieved_attached_value_fails:
  assumes "argparser_next p = Inr (r, p')" and "last_arg p' = Some v"
  shows "\<exists>opt. r = 1 \<and> last' p' = Some opt
           \<and> argparser_next p'
               = Inl (Die (''Option '' @ quoted opt @ '' does not expect an argument.\<newline>''))"
  using assms
proof (induction p arbitrary: r p' rule: argparser_next.induct)
  case (1 p)
  from "1.prems"(1) have la: "last_arg p = None"
    by (subst (asm) argparser_next.simps) (simp split: if_splits)
  show ?case
  proof (cases "shortopt p")
    case (Some buf)
    with la "1.prems" show ?thesis
      by (subst (asm) argparser_next.simps) (auto simp: argparser_shortopt_def split: list.splits)
  next
    case None
    obtain x p0 where pop: "argparser_pop p = (x, p0)" by (cases "argparser_pop p")
    then have p0: "last_arg p0 = None" using la
      by (auto simp: argparser_pop_def split: list.splits)
    show ?thesis
    proof (cases x)
      case None
      with pop \<open>shortopt p = None\<close> la p0 "1.prems" show ?thesis
        by (subst (asm) argparser_next.simps) auto
    next
      case (Some a)
      let ?p1 = "p0\<lparr>last' := Some a\<rparr>"
      from "1.prems"(1) la \<open>shortopt p = None\<close> pop Some
      have step: "(if argsep ?p1 \<or> a = [] \<or> hd a \<noteq> CHR ''-'' then Inr (2, ?p1)
                  else if tl a = [] then Inl (Die (''Invalid option '' @ quoted ''-'' @ ''.\<newline>''))
                  else if hd (tl a) = CHR ''-'' \<and> tl (tl a) = []
                    then argparser_next (?p1\<lparr>argsep := True\<rparr>)
                  else if hd (tl a) = CHR ''-''
                    then (if CHR ''='' \<in> set a
                          then Inr (1, ?p1\<lparr>last' := Some (takeWhile (\<lambda>c. c \<noteq> CHR ''='') a),
                                          last_arg := Some (tl (dropWhile (\<lambda>c. c \<noteq> CHR ''='') a))\<rparr>)
                          else Inr (1, ?p1))
                  else argparser_shortopt ?p1 (tl a)) = Inr (r, p')"
        by (subst (asm) argparser_next.simps) (simp add: Let_def)
      consider (pos) "argsep ?p1 \<or> a = [] \<or> hd a \<noteq> CHR ''-''"
        | (sep) "\<not> (argsep ?p1 \<or> a = [] \<or> hd a \<noteq> CHR ''-'')" "tl a \<noteq> []"
            "hd (tl a) = CHR ''-'' \<and> tl (tl a) = []"
        | (long) "\<not> (argsep ?p1 \<or> a = [] \<or> hd a \<noteq> CHR ''-'')" "tl a \<noteq> []"
            "\<not> (hd (tl a) = CHR ''-'' \<and> tl (tl a) = [])" "hd (tl a) = CHR ''-''"
        | (short) "\<not> (argsep ?p1 \<or> a = [] \<or> hd a \<noteq> CHR ''-'')" "tl a \<noteq> []"
            "hd (tl a) \<noteq> CHR ''-''"
        | (bad) "\<not> (argsep ?p1 \<or> a = [] \<or> hd a \<noteq> CHR ''-'')" "tl a = []"
        by blast
      then show ?thesis
      proof cases
        case pos
        with step p0 "1.prems"(2) show ?thesis by auto
      next
        case sep
        with step have rec: "argparser_next (?p1\<lparr>argsep := True\<rparr>) = Inr (r, p')" by simp
        show ?thesis
          using "1.IH"[of x p0 a ?p1 r p'] la \<open>shortopt p = None\<close> pop Some sep rec "1.prems"(2)
          by simp
      next
        case long
        show ?thesis
        proof (cases "CHR ''='' \<in> set a")
          case True
          with long step
          have p': "p' = ?p1\<lparr>last' := Some (takeWhile (\<lambda>c. c \<noteq> CHR ''='') a),
                               last_arg := Some (tl (dropWhile (\<lambda>c. c \<noteq> CHR ''='') a))\<rparr>"
            and r: "r = 1" by auto
          show ?thesis
            unfolding p' r
            by (subst argparser_next.simps) (simp add: printed_def)
        next
          case False
          with long step p0 "1.prems"(2) show ?thesis by auto
        qed
      next
        case short
        with step p0 "1.prems"(2) show ?thesis
          by (auto simp: argparser_shortopt_def split: list.splits)
      next
        case bad
        with step show ?thesis by simp
      qed
    qed
  qed
qed

theorem unretrieved_attached_value_fails_witness:
  "argparser_next (argparser_init [''--si=1'', ''-x''])
     = Inr (1, \<lparr>argv = [''-x''], shortopt = None, last' = Some ''--si'',
                 last_arg = Some ''1'', argsep = False\<rparr>)
   \<and> argparser_next \<lparr>argv = [''-x''], shortopt = None, last' = Some ''--si'',
                 last_arg = Some ''1'', argsep = False\<rparr>
     = Inl (Die (''Option '' @ quoted ''--si'' @ '' does not expect an argument.\<newline>''))"
proof -
  have 1: "argparser_next (argparser_init [''--si=1'', ''-x''])
     = Inr (1, \<lparr>argv = [''-x''], shortopt = None, last' = Some ''--si'',
                 last_arg = Some ''1'', argsep = False\<rparr>)"
    by (simp add: argparser_init_def argparser_next.simps argparser_pop_def Let_def)
  from unretrieved_attached_value_fails[OF 1, of "''1''"] 1 show ?thesis by simp
qed

text \<open>
  A value that is retrieved leaves nothing pending: \<^verbatim>\<open>argparser_arg\<close> returns the
  attached value and clears it.
\<close>

lemma argparser_arg_takes_attached_value:
  "shortopt p = None \<Longrightarrow> last_arg p = Some v \<Longrightarrow>
     argparser_arg p = Inr (v, p\<lparr>last_arg := None\<rparr>)"
  by (simp add: argparser_arg_def)


end
